theory Spec2Isabelle
  imports Complex_Main "HOL-Library.Multiset" "HOL-Library.Sublist" "HOL-Library.AList"
begin

section \<open>RPC client: errors, endpoints and batched calls\<close>

text \<open>
  The dashboard's service module (\<open>services/api\<close>) talks JSON-RPC to three endpoints.
  Every \<open>throw new Error(...)\<close> of the module is a constructor of \<open>rpc_error\<close>; a rejected
  \<open>fetch\<close> or \<open>response.json()\<close> is \<open>TransportFailure\<close>.
\<close>

datatype rpc_error =
    TransportFailure
  | HttpError int
  | RpcError string
  | BatchNotArray
  | RateLimitExceeded int
  | SyntaxError string
  | LatestBlockUnavailable

text \<open>\<open>rpcUrl || PROXY_URL\<close>: an absent or empty override falls back to the default.\<close>

fun orUrl :: "string option \<Rightarrow> string \<Rightarrow> string" where
  "orUrl None d = d"
| "orUrl (Some u) d = (if u = [] then d else u)"

record 'p rpc_request =
  rq_method :: string
  rq_params :: 'p
  rq_id :: int

text \<open>
  One element of a batch reply (\<open>BlockVisionResponse\<close>): the id echoed by the provider, the
  \<open>result\<close> and the optional \<open>error\<close> (its message).
\<close>

record 'a sub_response =
  rs_id :: int
  rs_result :: 'a
  rs_error :: "string option"

text \<open>
  What the HTTP exchange of a batch can yield: \<open>fetch\<close> rejects, a status that is not ok,
  a JSON array of sub-responses, or some other JSON value (with its \<open>error.message\<close> when it
  has one).
\<close>

datatype 'a batch_reply =
    FetchRejected
  | NotOk int
  | JsonArray "'a sub_response list"
  | JsonOther "string option"

text \<open>\<open>requests.map((req, index) => ({jsonrpc, method, params, id: index}))\<close>\<close>

definition batchPayload :: "(string \<times> 'p) list \<Rightarrow> 'p rpc_request list" where
  "batchPayload requests =
     map (\<lambda>(index, req). \<lparr>rq_method = fst req, rq_params = snd req, rq_id = int index\<rparr>)
       (enumerate 0 requests)"

text \<open>The callback of the final \<open>map\<close>: a sub-response with an error becomes \<open>null\<close>.\<close>

definition subResult :: "'a sub_response \<Rightarrow> 'a option" where
  "subResult res = (if rs_error res \<noteq> None then None else Some (rs_result res))"

text \<open>
  \<open>data.sort((a, b) => a.id - b.id)\<close> is a stable sort by id (ECMAScript 2019), which is
  what \<open>sort_key\<close> computes.
\<close>

definition batchBlockVisionData ::
  "(string \<Rightarrow> 'p rpc_request list \<Rightarrow> 'a batch_reply) \<Rightarrow> string \<Rightarrow>
   (string \<times> 'p) list \<Rightarrow> string option \<Rightarrow> rpc_error + 'a option list" where
  "batchBlockVisionData fetch PROXY_URL requests rpcUrl =
     (case fetch (orUrl rpcUrl PROXY_URL) (batchPayload requests) of
        FetchRejected \<Rightarrow> Inl TransportFailure
      | NotOk status \<Rightarrow> Inl (HttpError status)
      | JsonOther (Some msg) \<Rightarrow> Inl (RpcError msg)
      | JsonOther None \<Rightarrow> Inl BatchNotArray
      | JsonArray data \<Rightarrow> Inr (map subResult (sort_key rs_id data)))"

subsection \<open>The fixed-window rate limiter and single calls\<close>

text \<open>
  The module-level variables \<open>requestCount\<close> and \<open>lastResetTime\<close> are the limiter's state;
  \<open>Date.now()\<close> is the argument \<open>now\<close> (milliseconds).
\<close>

record rate_limiter =
  requestCount :: int
  lastResetTime :: int

definition RATE_LIMIT :: int where
  "RATE_LIMIT = 20"

definition RATE_LIMIT_WINDOW :: int where
  "RATE_LIMIT_WINDOW = 1000"

text \<open>
  \<open>checkRateLimit\<close> returns the thrown error, if any, and the updated variables. The error
  carries the number of seconds of its message, \<open>Math.ceil(waitTime / 1000)\<close>.
\<close>

definition checkRateLimit :: "int \<Rightarrow> rate_limiter \<Rightarrow> (rpc_error + unit) \<times> rate_limiter" where
  "checkRateLimit now rl =
     (let rl1 = (if now - lastResetTime rl \<ge> RATE_LIMIT_WINDOW
                 then rl\<lparr>requestCount := 0, lastResetTime := now\<rparr> else rl)
      in if requestCount rl1 \<ge> RATE_LIMIT
         then (let waitTime = RATE_LIMIT_WINDOW - (now - lastResetTime rl1)
               in (Inl (RateLimitExceeded \<lceil>rat_of_int waitTime / 1000\<rceil>), rl1))
         else (Inr (), rl1\<lparr>requestCount := requestCount rl1 + 1\<rparr>))"

text \<open>The HTTP exchange of a single call: \<open>data.result\<close> and \<open>data.error\<close> of the JSON body.\<close>

datatype 'a single_reply =
    CallRejected
  | CallNotOk int
  | CallJson 'a "string option"

text \<open>
  The client's state: the limiter and the requests handed to \<open>fetch\<close> so far (URL and
  method), so that a call that sends nothing leaves \<open>sent\<close> as it was.
\<close>

record client =
  limiter :: rate_limiter
  sent :: "(string \<times> string) list"

definition getBlockVisionData ::
  "(string \<Rightarrow> 'p rpc_request \<Rightarrow> 'a single_reply) \<Rightarrow> string \<Rightarrow> string \<Rightarrow> 'p \<Rightarrow>
   string option \<Rightarrow> int \<Rightarrow> client \<Rightarrow> (rpc_error + 'a) \<times> client" where
  "getBlockVisionData fetch PROXY_URL method params rpcUrl now c =
     (let url = orUrl rpcUrl PROXY_URL;
          checked = (if sublist ''quiknode'' url then checkRateLimit now (limiter c)
                     else (Inr (), limiter c))
      in case checked of
           (Inl e, rl) \<Rightarrow> (Inl e, c\<lparr>limiter := rl\<rparr>)
         | (Inr _, rl) \<Rightarrow>
             (let c1 = c\<lparr>limiter := rl, sent := sent c @ [(url, method)]\<rparr>
              in case fetch url \<lparr>rq_method = method, rq_params = params, rq_id = 1\<rparr> of
                   CallRejected \<Rightarrow> (Inl TransportFailure, c1)
                 | CallNotOk status \<Rightarrow> (Inl (HttpError status), c1)
                 | CallJson res (Some msg) \<Rightarrow> (Inl (RpcError msg), c1)
                 | CallJson res None \<Rightarrow> (Inr res, c1)))"

text \<open>
  Successive calls of \<open>getBlockVisionData\<close> with the same arguments at the given clock
  readings: each call starts from the state the one before left, and the outcome of each is
  recorded.
\<close>

fun getBlockVisionDataCalls ::
  "(string \<Rightarrow> 'p rpc_request \<Rightarrow> 'a single_reply) \<Rightarrow> string \<Rightarrow> string \<Rightarrow> 'p \<Rightarrow>
   string option \<Rightarrow> int list \<Rightarrow> client \<Rightarrow> (rpc_error + 'a) list \<times> client" where
  "getBlockVisionDataCalls fetch PROXY_URL method params rpcUrl [] c = ([], c)"
| "getBlockVisionDataCalls fetch PROXY_URL method params rpcUrl (now # ts) c =
     (case getBlockVisionData fetch PROXY_URL method params rpcUrl now c of (r, c1) \<Rightarrow>
        (case getBlockVisionDataCalls fetch PROXY_URL method params rpcUrl ts c1 of
           (rs, c2) \<Rightarrow> (r # rs, c2)))"

section \<open>Response normalizer: hexadecimal strings\<close>

text \<open>
  A JavaScript number that comes out of \<open>parseInt\<close>: an integer or \<open>NaN\<close>. Integers are kept
  exact (a double holds them exactly up to \<open>2^53\<close>).
\<close>

datatype jsnum = NaN | Num int

text \<open>White space that \<open>parseInt\<close> and \<open>BigInt\<close> skip, as far as it is ASCII.\<close>

definition isWhiteSpace :: "char \<Rightarrow> bool" where
  "isWhiteSpace c = (c \<in> set [CHR 0x09, CHR 0x0A, CHR 0x0B, CHR 0x0C, CHR 0x0D, CHR 0x20])"

text \<open>The value of a digit: \<open>0-9\<close>, then \<open>a-z\<close> or \<open>A-Z\<close> for ten to thirty-five.\<close>

definition digitVal :: "char \<Rightarrow> nat option" where
  "digitVal c =
     (let n = (of_char c :: nat)
      in if 48 \<le> n \<and> n \<le> 57 then Some (n - 48)
         else if 97 \<le> n \<and> n \<le> 122 then Some (n - 87)
         else if 65 \<le> n \<and> n \<le> 90 then Some (n - 55)
         else None)"

definition isDigitOf :: "nat \<Rightarrow> char \<Rightarrow> bool" where
  "isDigitOf R c = (case digitVal c of None \<Rightarrow> False | Some d \<Rightarrow> d < R)"

definition digitsValue :: "nat \<Rightarrow> string \<Rightarrow> int" where
  "digitsValue R Z =
     foldl (\<lambda>a c. int R * a + int (case digitVal c of None \<Rightarrow> 0 | Some d \<Rightarrow> d)) 0 Z"

definition hasHexPrefix :: "string \<Rightarrow> bool" where
  "hasHexPrefix S = (case S of c0 # x # r \<Rightarrow> c0 = CHR ''0'' \<and> (x = CHR ''x'' \<or> x = CHR ''X'')
                      | _ \<Rightarrow> False)"

text \<open>
  \<open>parseInt(string, radix)\<close> of ECMAScript: skip leading white space, read a sign, strip
  \<open>0x\<close> when the radix is 16 or absent, read the longest run of digits of the radix;
  no digit gives \<open>NaN\<close>. It never throws on a string.
\<close>

definition parseInt :: "string \<Rightarrow> nat option \<Rightarrow> jsnum" where
  "parseInt inputString radix =
     (let S = dropWhile isWhiteSpace inputString;
          sign = (case S of c # r \<Rightarrow> if c = CHR ''-'' then - 1 else 1 | [] \<Rightarrow> (1::int));
          S1 = (case S of c # r \<Rightarrow> if c = CHR ''-'' \<or> c = CHR ''+'' then r else S | [] \<Rightarrow> S);
          R0 = (case radix of None \<Rightarrow> 0 | Some r \<Rightarrow> r)
      in if R0 \<noteq> 0 \<and> (R0 < 2 \<or> 36 < R0) then NaN
         else
           (let stripPrefix = (R0 = 0 \<or> R0 = 16);
                R1 = (if R0 = 0 then 10 else R0);
                R = (if stripPrefix \<and> hasHexPrefix S1 then 16 else R1);
                S2 = (if stripPrefix \<and> hasHexPrefix S1 then drop 2 S1 else S1);
                Z = takeWhile (isDigitOf R) S2
            in if Z = [] then NaN else Num (sign * digitsValue R Z)))"

text \<open>\<open>hex ? parseInt(hex, 16) : 0\<close>; \<open>None\<close> is \<open>undefined\<close>, and the empty string is falsy too.\<close>

definition hexToNumber :: "string option \<Rightarrow> jsnum" where
  "hexToNumber hex =
     (case hex of None \<Rightarrow> Num 0
      | Some h \<Rightarrow> if h = [] then Num 0 else parseInt h (Some 16))"

definition trimWhiteSpace :: "string \<Rightarrow> string" where
  "trimWhiteSpace s = rev (dropWhile isWhiteSpace (rev (dropWhile isWhiteSpace s)))"

definition allDigits :: "nat \<Rightarrow> string \<Rightarrow> int option" where
  "allDigits R ds = (if ds \<noteq> [] \<and> list_all (isDigitOf R) ds then Some (digitsValue R ds) else None)"

text \<open>
  \<open>StringToBigInt\<close> of ECMAScript, which \<open>BigInt(string)\<close> applies: the whole trimmed string
  must be empty (zero), a decimal literal with an optional sign, or an unsigned literal
  with prefix \<open>0x\<close>, \<open>0o\<close> or \<open>0b\<close> and at least one digit. Anything else is \<open>None\<close>, on
  which \<open>BigInt\<close> throws a \<open>SyntaxError\<close>.
\<close>

definition StringToBigInt :: "string \<Rightarrow> int option" where
  "StringToBigInt str =
     (let t = trimWhiteSpace str
      in case t of
           [] \<Rightarrow> Some 0
         | c # r \<Rightarrow>
             if c = CHR ''+'' then allDigits 10 r
             else if c = CHR ''-'' then map_option uminus (allDigits 10 r)
             else if hasHexPrefix t then allDigits 16 (drop 2 t)
             else if c = CHR ''0'' \<and> r \<noteq> [] \<and> (hd r = CHR ''o'' \<or> hd r = CHR ''O'')
               then allDigits 8 (tl r)
             else if c = CHR ''0'' \<and> r \<noteq> [] \<and> (hd r = CHR ''b'' \<or> hd r = CHR ''B'')
               then allDigits 2 (tl r)
             else allDigits 10 t)"

text \<open>\<open>hex ? BigInt(hex) : BigInt(0)\<close>\<close>

definition hexToBigInt :: "string option \<Rightarrow> rpc_error + int" where
  "hexToBigInt hex =
     (case hex of None \<Rightarrow> Inr 0
      | Some h \<Rightarrow> if h = [] then Inr 0
                  else (case StringToBigInt h of
                          None \<Rightarrow> Inl (SyntaxError h)
                        | Some n \<Rightarrow> Inr n))"

section \<open>Domain records\<close>

text \<open>
  A \<open>Transaction\<close> as the aggregators read it. \<open>None\<close> is a \<open>null\<close> or absent field; a field
  is truthy when it is a non-empty string. \<open>tx_status\<close> is the numeric \<open>status\<close> that the
  interface declares (\<open>number | null\<close>).
\<close>

record transaction =
  tx_hash :: string
  tx_from :: "string option"
  tx_to :: "string option"
  tx_value :: "string option"
  tx_gas :: "string option"
  tx_status :: "int option"

definition truthy :: "string option \<Rightarrow> bool" where
  "truthy v = (case v of None \<Rightarrow> False | Some s \<Rightarrow> s \<noteq> [])"

text \<open>
  An element of \<open>block.transactions\<close>: a hash, a transaction object or \<open>null\<close>
  (the shape depends on whether the provider was asked for transaction detail).
\<close>

datatype tx_entry = TxHash string | TxObject transaction | TxNull

text \<open>
  A \<open>Block\<close> as interface \<open>Block\<close> declares it: \<open>number\<close> and \<open>timestamp\<close> are numbers
  (the provider's hexadecimal quantities, decoded), \<open>gasUsed\<close> is the raw hexadecimal string,
  \<open>transactions\<close> is an array. Non-numeric (\<open>NaN\<close>) heights and timestamps are not modelled.
\<close>

record block =
  number :: int
  timestamp :: int
  gasUsed :: string
  transactions :: "tx_entry list"
  prefetchedTransactions :: "transaction list option"

record receipt =
  rc_status :: "string option"
  rc_gasUsed :: "string option"

datatype block_tag = Latest | BlockNumber int

text \<open>
  JavaScript numbers that are not integers (rates, averages) are modelled as exact
  rationals; the source computes them in IEEE doubles. \<open>Number(x.toFixed(2))\<close> rounds to two
  decimals, halves away from zero.
\<close>

definition toFixed2 :: "rat \<Rightarrow> rat" where
  "toFixed2 x = (if x < 0 then - (of_int \<lfloor>- x * 100 + 1 / 2\<rfloor> / 100)
                 else of_int \<lfloor>x * 100 + 1 / 2\<rfloor> / 100)"

text \<open>\<open>String.prototype.toLowerCase\<close> on ASCII letters.\<close>

definition toLowerCase :: "string \<Rightarrow> string" where
  "toLowerCase s =
     map (\<lambda>c. let n = (of_char c :: nat) in if 65 \<le> n \<and> n \<le> 90 then char_of (n + 32) else c) s"

text \<open>
  \<open>Number.prototype.toString(radix)\<close> on a natural number, and on a number that may be
  negative or \<open>NaN\<close>. The source only uses the radixes 10 and 16, for which every digit
  is below 36.
\<close>

definition digitChar :: "nat \<Rightarrow> char" where
  "digitChar d = (if d < 36 then ''0123456789abcdefghijklmnopqrstuvwxyz'' ! d else CHR ''?'')"

function natToString :: "nat \<Rightarrow> nat \<Rightarrow> string" where
  "natToString radix n =
     (if n < radix \<or> radix < 2 then [digitChar n]
      else natToString radix (n div radix) @ [digitChar (n mod radix)])"
  by pat_completeness auto
termination
  by (relation "measure (\<lambda>(radix, n). n)") auto

declare natToString.simps [simp del]

definition numToString :: "nat \<Rightarrow> jsnum \<Rightarrow> string" where
  "numToString radix v =
     (case v of NaN \<Rightarrow> ''NaN''
      | Num n \<Rightarrow> if n < 0 then CHR ''-'' # natToString radix (nat (- n))
                 else natToString radix (nat n))"

section \<open>Aggregators: ecosystem health\<close>

text \<open>The fields that both variants return.\<close>

record health_base =
  tps :: rat
  successRate :: rat
  activeWallets :: nat
  newContracts :: nat
  failedTxRate :: rat
  avgBlockTime :: rat
  maxGasUsagePerBlock :: int
  healthScore :: string
  blockCount :: nat

record health_metrics = health_base +
  txCount :: nat

record recent_health_metrics = health_base +
  healthScoreCount :: nat
  totalTxCount :: nat
  successCount :: nat
  failedCount :: nat
  partial :: bool
  failedBlocks :: "jsnum list"

text \<open>
  Parts shared by the two metric loops: the gaps \<open>blocks[i - 1].timestamp - block.timestamp\<close>,
  the running maximum of \<open>parseInt(block.gasUsed)\<close> (a comparison with \<open>NaN\<close> is false), the
  mean of the gaps with a fallback, and the classification.
\<close>

definition blockTimesOf :: "block list \<Rightarrow> int list" where
  "blockTimesOf blocks = map (\<lambda>(prev, block). timestamp prev - timestamp block) (zip blocks (tl blocks))"

definition maxGasUsageOf :: "block list \<Rightarrow> int" where
  "maxGasUsageOf blocks =
     foldl (\<lambda>maxGasUsage block.
              case parseInt (gasUsed block) None of
                NaN \<Rightarrow> maxGasUsage
              | Num g \<Rightarrow> if g > maxGasUsage then g else maxGasUsage) 0 blocks"

definition meanOr :: "int list \<Rightarrow> rat \<Rightarrow> rat" where
  "meanOr blockTimes fallback =
     (if length blockTimes > 0 then rat_of_int (sum_list blockTimes) / rat_of_nat (length blockTimes)
      else fallback)"

definition classify :: "rat \<Rightarrow> rat \<Rightarrow> string" where
  "classify rate failedRate = (if rate > 95 \<and> failedRate < 5 then ''Healthy'' else ''Needs Attention'')"

subsection \<open>The fail-closed variant \<open>getEcosystemHealthMetrics\<close>\<close>

definition secondsIn24h :: int where
  "secondsIn24h = 10 * 60"

text \<open>
  The loop that walks back from the latest block. \<open>getBlock\<close> stands for the awaited
  \<open>getBlockByNumber\<close>: it throws (\<open>Inl\<close>), finds nothing (\<open>null\<close>) or yields a block.
\<close>

function fetchWindow ::
  "(block_tag \<Rightarrow> bool \<Rightarrow> rpc_error + block option) \<Rightarrow> int \<Rightarrow> int \<Rightarrow> int \<Rightarrow>
   rpc_error + block list" where
  "fetchWindow getBlock startBlockNumber startTimestamp blockNum =
     (if blockNum \<ge> startBlockNumber then
        (case getBlock (BlockNumber blockNum) True of
           Inl e \<Rightarrow> Inl e
         | Inr None \<Rightarrow> Inr []
         | Inr (Some block) \<Rightarrow>
             if timestamp block \<ge> startTimestamp then
               (case fetchWindow getBlock startBlockNumber startTimestamp (blockNum - 1) of
                  Inl e \<Rightarrow> Inl e
                | Inr blocks \<Rightarrow> Inr (block # blocks))
             else Inr [])
      else Inr [])"
  by pat_completeness auto
termination
  by (relation "measure (\<lambda>(getBlock, startBlockNumber, startTimestamp, blockNum).
                            nat (blockNum - startBlockNumber + 1))") auto

text \<open>
  The estimate of the block time and the window. A zero \<open>avgBlockTime\<close> makes the quotient
  \<open>Infinity\<close> in JavaScript, so \<open>Math.max(0, number - Infinity)\<close> is zero.
\<close>

definition scanWindow ::
  "(block_tag \<Rightarrow> bool \<Rightarrow> rpc_error + block option) \<Rightarrow> block \<Rightarrow> rpc_error + (rat \<times> block list)" where
  "scanWindow getBlock latestBlock =
     (let latestTimestamp = timestamp latestBlock;
          startTimestamp = latestTimestamp - secondsIn24h;
          estimate =
            (if number latestBlock > 100 then
               (case getBlock (BlockNumber (number latestBlock - 100)) False of
                  Inl e \<Rightarrow> Inl e
                | Inr None \<Rightarrow> Inr 1
                | Inr (Some hundredBlocksAgo) \<Rightarrow>
                    Inr (rat_of_int (timestamp latestBlock - timestamp hundredBlocksAgo) / 100))
             else Inr (1 :: rat))
      in case estimate of
           Inl e \<Rightarrow> Inl e
         | Inr avgBlockTime0 \<Rightarrow>
             (let startBlockNumber =
                    (if avgBlockTime0 = 0 then 0
                     else max 0 (number latestBlock - \<lceil>rat_of_int secondsIn24h / avgBlockTime0\<rceil>))
              in case fetchWindow getBlock startBlockNumber startTimestamp (number latestBlock) of
                   Inl e \<Rightarrow> Inl e
                 | Inr blocks \<Rightarrow> Inr (avgBlockTime0, blocks)))"

text \<open>The transactions that the metric loop visits, and its counters.\<close>

definition windowTxs :: "block list \<Rightarrow> transaction list" where
  "windowTxs blocks =
     concat (map (\<lambda>block. case prefetchedTransactions block of None \<Rightarrow> [] | Some txs \<Rightarrow> txs) blocks)"

definition walletsOf :: "transaction list \<Rightarrow> string list" where
  "walletsOf txs =
     concat (map (\<lambda>tx. (if truthy (tx_from tx) then [the (tx_from tx)] else [])
                       @ (if truthy (tx_to tx) then [the (tx_to tx)] else [])) txs)"

text \<open>
  The rates before rounding: the local constants \<open>successRate\<close> and \<open>failedTxRate\<close>.
  Local constants that share a name with a returned field carry a \<open>0\<close> suffix.
\<close>

definition successRateOf :: "block list \<Rightarrow> rat" where
  "successRateOf blocks =
     (let txCount0 = length (windowTxs blocks);
          successCount0 = length (filter (\<lambda>tx. tx_status tx = Some 1) (windowTxs blocks))
      in if txCount0 > 0 then rat_of_nat successCount0 / rat_of_nat txCount0 * 100 else 100)"

definition failedTxRateOf :: "block list \<Rightarrow> rat" where
  "failedTxRateOf blocks =
     (let txCount0 = length (windowTxs blocks);
          failedCount0 = length (filter (\<lambda>tx. tx_status tx = Some 0) (windowTxs blocks))
      in if txCount0 > 0 then rat_of_nat failedCount0 / rat_of_nat txCount0 * 100 else 0)"

text \<open>The part of \<open>getEcosystemHealthMetrics\<close> under \<open>// Calculate metrics\<close>.\<close>

definition healthMetrics :: "rat \<Rightarrow> block list \<Rightarrow> health_metrics" where
  "healthMetrics avgBlockTime0 blocks =
     (let txs = windowTxs blocks;
          txCount0 = length txs;
          blockTimes = blockTimesOf blocks;
          successRate0 = successRateOf blocks;
          failedTxRate0 = failedTxRateOf blocks
      in \<lparr>tps = toFixed2 (rat_of_nat txCount0 / rat_of_int secondsIn24h),
          successRate = toFixed2 successRate0,
          activeWallets = length (remdups (walletsOf txs)),
          newContracts = length (filter (\<lambda>tx. \<not> truthy (tx_to tx)) txs),
          failedTxRate = toFixed2 failedTxRate0,
          avgBlockTime = toFixed2 (meanOr blockTimes avgBlockTime0),
          maxGasUsagePerBlock = maxGasUsageOf blocks,
          healthScore = classify successRate0 failedTxRate0,
          blockCount = length blocks,
          txCount = txCount0\<rparr>)"

definition getEcosystemHealthMetrics ::
  "(block_tag \<Rightarrow> bool \<Rightarrow> rpc_error + block option) \<Rightarrow> rpc_error + health_metrics" where
  "getEcosystemHealthMetrics getBlock =
     (case getBlock Latest False of
        Inl e \<Rightarrow> Inl e
      | Inr None \<Rightarrow> Inl LatestBlockUnavailable
      | Inr (Some latestBlock) \<Rightarrow>
          (case scanWindow getBlock latestBlock of
             Inl e \<Rightarrow> Inl e
           | Inr (avgBlockTime0, blocks) \<Rightarrow> Inr (healthMetrics avgBlockTime0 blocks)))"

subsection \<open>The fail-open variant \<open>getRecentEcosystemHealthMetrics\<close>\<close>

text \<open>
  The calls it awaits are parameters: \<open>blockNumberCall\<close> is the outcome of
  \<open>getBlockVisionData('eth_blockNumber')\<close>, \<open>fetch\<close> the HTTP exchange of the batch, and
  \<open>getReceipt\<close> the outcome of \<open>getTransactionReceipt\<close> for a hash. A batch element is a
  block or \<open>null\<close>, read at type \<open>Block\<close> as the source's cast does.
\<close>

definition recentBlockNumbers :: "jsnum \<Rightarrow> nat \<Rightarrow> jsnum list" where
  "recentBlockNumbers latestBlockNumber blockCount0 =
     map (\<lambda>i. case latestBlockNumber of NaN \<Rightarrow> NaN | Num n \<Rightarrow> Num (n - int i)) [0..<blockCount0]"

definition recentBlockRequests :: "jsnum list \<Rightarrow> (string \<times> string \<times> bool) list" where
  "recentBlockRequests blockNumbers =
     map (\<lambda>num. (''eth_getBlockByNumber'', ''0x'' @ numToString 16 num, True)) blockNumbers"

text \<open>\<open>results.filter(Boolean)\<close>: a block object is truthy, \<open>null\<close> is not.\<close>

definition filterBoolean :: "'a option option list \<Rightarrow> 'a list" where
  "filterBoolean results = concat (map (\<lambda>r. case r of Some (Some b) \<Rightarrow> [b] | _ \<Rightarrow> []) results)"

text \<open>
  \<open>blockNumbers.filter((num, idx) => !blocks[idx])\<close>: \<open>blocks[idx]\<close> is a block when
  \<open>idx\<close> is in range and \<open>undefined\<close> otherwise.
\<close>

definition failedBlocksOf :: "jsnum list \<Rightarrow> block list \<Rightarrow> jsnum list" where
  "failedBlocksOf blockNumbers blocks =
     map snd (filter (\<lambda>(idx, num). \<not> idx < length blocks) (enumerate 0 blockNumbers))"

definition allTxHashesOf :: "block list \<Rightarrow> string list" where
  "allTxHashesOf blocks =
     concat (map (\<lambda>block. concat (map (\<lambda>tx. case tx of TxHash h \<Rightarrow> [h]
                                                 | TxObject t \<Rightarrow> [tx_hash t]
                                                 | TxNull \<Rightarrow> []) (transactions block))) blocks)"

text \<open>
  \<open>txObjs\<close>: the prefetched transactions when there are some, else the \<open>transactions\<close> when
  their first element is an object (\<open>typeof null\<close> is \<open>'object'\<close> too); only objects are
  visited.
\<close>

definition txObjsOf :: "block \<Rightarrow> transaction list" where
  "txObjsOf block =
     (case prefetchedTransactions block of
        Some (t # ts) \<Rightarrow> t # ts
      | _ \<Rightarrow> (case transactions block of
                TxHash h # rest \<Rightarrow> []
              | [] \<Rightarrow> []
              | entries \<Rightarrow> concat (map (\<lambda>tx. case tx of TxObject t \<Rightarrow> [t] | _ \<Rightarrow> []) entries)))"

definition recentWalletsOf :: "transaction list \<Rightarrow> string list" where
  "recentWalletsOf txs =
     concat (map (\<lambda>tx. (if truthy (tx_from tx) then [toLowerCase (the (tx_from tx))] else [])
                       @ (if truthy (tx_to tx) then [toLowerCase (the (tx_to tx))] else [])) txs)"

datatype receipt_status = ReceiptSuccess | ReceiptFail

text \<open>The callback mapped over \<open>allTxHashes\<close>; a thrown error is caught and gives \<open>null\<close>.\<close>

definition receiptResult :: "(string \<Rightarrow> rpc_error + receipt option) \<Rightarrow> string \<Rightarrow> receipt_status option" where
  "receiptResult getReceipt hash =
     (case getReceipt hash of
        Inl e \<Rightarrow> None
      | Inr None \<Rightarrow> None
      | Inr (Some receipt) \<Rightarrow>
          (case rc_status receipt of
             None \<Rightarrow> None
           | Some st \<Rightarrow> if parseInt st (Some 16) = Num 1 then Some ReceiptSuccess
                        else if parseInt st (Some 16) = Num 0 then Some ReceiptFail
                        else None))"

definition recentMetrics ::
  "(string \<Rightarrow> rpc_error + receipt option) \<Rightarrow> jsnum list \<Rightarrow> block list \<Rightarrow> recent_health_metrics" where
  "recentMetrics getReceipt blockNumbers blocks =
     (let failedBlocks0 = failedBlocksOf blockNumbers blocks;
          totalTxCount0 = sum_list (map (\<lambda>block. length (transactions block)) blocks);
          allTxHashes = allTxHashesOf blocks;
          txObjs = concat (map txObjsOf blocks);
          blockTimes = blockTimesOf blocks;
          firstTimestamp = timestamp (last blocks);
          lastTimestamp = timestamp (hd blocks);
          receiptResults = map (receiptResult getReceipt) allTxHashes;
          successCount0 = length (filter (\<lambda>status. status = Some ReceiptSuccess) receiptResults);
          failedCount0 = length (filter (\<lambda>status. status = Some ReceiptFail) receiptResults);
          seconds = lastTimestamp - firstTimestamp;
          tps0 = (if seconds > 0 then rat_of_nat totalTxCount0 / rat_of_int seconds else 0);
          successRate0 = (if totalTxCount0 > 0
                          then rat_of_nat successCount0 / rat_of_nat totalTxCount0 * 100 else 0);
          failedTxRate0 = (if totalTxCount0 > 0
                           then rat_of_nat failedCount0 / rat_of_nat totalTxCount0 * 100 else 0)
      in \<lparr>tps = toFixed2 tps0,
          successRate = toFixed2 successRate0,
          activeWallets = length (remdups (recentWalletsOf txObjs)),
          newContracts = length (filter (\<lambda>tx. \<not> truthy (tx_to tx)) txObjs),
          failedTxRate = toFixed2 failedTxRate0,
          avgBlockTime = toFixed2 (meanOr blockTimes 0),
          maxGasUsagePerBlock = maxGasUsageOf blocks,
          healthScore = classify successRate0 failedTxRate0,
          blockCount = length blocks,
          healthScoreCount = 14,
          totalTxCount = totalTxCount0,
          successCount = successCount0,
          failedCount = failedCount0,
          partial = (length failedBlocks0 > 0),
          failedBlocks = failedBlocks0\<rparr>)"

text \<open>
  The whole function: it throws when the height call or the batch throws, returns
  \<open>null\<close> when no block came back, and the metrics otherwise. \<open>hd\<close> and \<open>last\<close> above are only
  evaluated on a non-empty list.
\<close>

definition getRecentEcosystemHealthMetrics ::
  "(rpc_error + string option) \<Rightarrow>
   (string \<Rightarrow> (string \<times> bool) rpc_request list \<Rightarrow> block option batch_reply) \<Rightarrow>
   (string \<Rightarrow> rpc_error + receipt option) \<Rightarrow> string \<Rightarrow> string \<Rightarrow> nat \<Rightarrow>
   rpc_error + recent_health_metrics option" where
  "getRecentEcosystemHealthMetrics blockNumberCall fetch getReceipt PROXY_URL QUICKNODE_RPC_URL blockCount0 =
     (case blockNumberCall of
        Inl e \<Rightarrow> Inl e
      | Inr height \<Rightarrow>
          (let latestBlockNumber = hexToNumber height;
               blockNumbers = recentBlockNumbers latestBlockNumber blockCount0
           in case batchBlockVisionData fetch PROXY_URL (recentBlockRequests blockNumbers)
                     (Some QUICKNODE_RPC_URL) of
                Inl e \<Rightarrow> Inl e
              | Inr results \<Rightarrow>
                  (let blocks = filterBoolean results
                   in if length blocks = 0 then Inr None
                      else Inr (Some (recentMetrics getReceipt blockNumbers blocks)))))"

section \<open>Aggregators: gas usage history\<close>

text \<open>
  A block as it arrives in a batch reply, where nothing has decoded it: \<open>timestamp\<close> may be
  absent, a number or a (hexadecimal) string, which the source tells apart with \<open>typeof\<close>;
  \<open>gasUsed\<close> is a string or absent.
\<close>

datatype ts_value = TsAbsent | TsNumber int | TsString string

record raw_block =
  rb_timestamp :: ts_value
  rb_gasUsed :: "string option"

record gas_point =
  gp_time :: string
  gp_gasUsed :: int

text \<open>Truthiness of a timestamp: absent, zero and the empty string are falsy.\<close>

definition tsTruthy :: "ts_value \<Rightarrow> bool" where
  "tsTruthy t = (case t of TsAbsent \<Rightarrow> False | TsNumber n \<Rightarrow> n \<noteq> 0 | TsString s \<Rightarrow> s \<noteq> [])"

text \<open>
  The local constants \<open>blockTimestamp\<close> and \<open>minuteKey = Math.floor(blockTimestamp / 60)\<close>,
  and the addend \<open>parseInt(block.gasUsed, 16)\<close>.
\<close>

definition blockTimestampOf :: "raw_block \<Rightarrow> jsnum" where
  "blockTimestampOf block =
     (case rb_timestamp block of
        TsString s \<Rightarrow> parseInt s (Some 16)
      | TsNumber n \<Rightarrow> Num n
      | TsAbsent \<Rightarrow> NaN)"

definition minuteKeyOf :: "jsnum \<Rightarrow> jsnum" where
  "minuteKeyOf t = (case t of NaN \<Rightarrow> NaN | Num n \<Rightarrow> Num (n div 60))"

definition blockGasOf :: "raw_block \<Rightarrow> jsnum" where
  "blockGasOf block = (case rb_gasUsed block of None \<Rightarrow> NaN | Some h \<Rightarrow> parseInt h (Some 16))"

definition jsAdd :: "jsnum \<Rightarrow> jsnum \<Rightarrow> jsnum" where
  "jsAdd a b = (case (a, b) of (Num x, Num y) \<Rightarrow> Num (x + y) | _ \<Rightarrow> NaN)"

text \<open>\<open>gasUsageMap.get(key) || 0\<close>: a missing key, zero and \<open>NaN\<close> all give zero.\<close>

definition orZero :: "jsnum option \<Rightarrow> int" where
  "orZero v = (case v of Some (Num n) \<Rightarrow> n | _ \<Rightarrow> 0)"

text \<open>The body of \<open>blocks.forEach\<close>, on the \<open>Map\<close> from minute keys to gas.\<close>

definition gasStep :: "(jsnum \<rightharpoonup> jsnum) \<Rightarrow> raw_block \<Rightarrow> (jsnum \<rightharpoonup> jsnum)" where
  "gasStep gasUsageMap block =
     (if \<not> tsTruthy (rb_timestamp block) \<or> \<not> truthy (rb_gasUsed block) then gasUsageMap
      else (let minuteKey = minuteKeyOf (blockTimestampOf block);
                currentGas = orZero (gasUsageMap minuteKey)
            in gasUsageMap(minuteKey \<mapsto> jsAdd (Num currentGas) (blockGasOf block))))"

text \<open>
  The number of blocks to ask for, from the block a hundred behind when there is one.
  \<open>Math.ceil\<close> of a quotient of doubles is taken on the exact quotient here.
\<close>

definition blocksToFetchOf :: "block \<Rightarrow> block option \<Rightarrow> nat \<Rightarrow> nat" where
  "blocksToFetchOf latestBlock olderBlock minutes =
     (case olderBlock of
        None \<Rightarrow> minutes * 20
      | Some older \<Rightarrow>
          (let timeDiff = timestamp latestBlock - timestamp older;
               blockDiff = number latestBlock - number older
           in if timeDiff > 0 \<and> blockDiff > 0
              then (let avgBlockTime0 = rat_of_int timeDiff / rat_of_int blockDiff;
                        blocksPerMinute = 60 / avgBlockTime0
                    in nat \<lceil>blocksPerMinute * rat_of_nat minutes\<rceil>)
              else minutes * 20))"

definition blockNumbersToFetchOf :: "int \<Rightarrow> nat \<Rightarrow> int list" where
  "blockNumbersToFetchOf latestBlockNumber blocksToFetch =
     filter (\<lambda>blockNumber. blockNumber > 0) (map (\<lambda>i. latestBlockNumber - int i) [0..<blocksToFetch])"

definition gasBlockRequests :: "int list \<Rightarrow> (string \<times> string \<times> bool) list" where
  "gasBlockRequests blockNumbers =
     map (\<lambda>num. (''eth_getBlockByNumber'', ''0x'' @ numToString 16 (Num num), False)) blockNumbers"

text \<open>
  The second half of the function: one point per requested minute, counted back from the
  latest block's timestamp, then reversed. \<open>timeLabel\<close> stands for the \<open>HH:MM\<close> label that
  \<open>Date\<close> gives a timestamp in the browser's time zone.
\<close>

definition finalDataOf :: "(int \<Rightarrow> string) \<Rightarrow> (jsnum \<rightharpoonup> jsnum) \<Rightarrow> int \<Rightarrow> nat \<Rightarrow> gas_point list" where
  "finalDataOf timeLabel gasUsageMap nowTimestamp minutes =
     rev (map (\<lambda>i. let minuteTimestamp = nowTimestamp - int i * 60;
                       minuteKey = minuteKeyOf (Num minuteTimestamp)
                   in \<lparr>gp_time = timeLabel minuteTimestamp,
                       gp_gasUsed = orZero (gasUsageMap minuteKey)\<rparr>) [0..<minutes])"

text \<open>
  \<open>getGasUsageHistory\<close>: every thrown error ends in the \<open>catch\<close> that returns the empty
  list, as does a missing latest block.
\<close>

definition getGasUsageHistory ::
  "(block_tag \<Rightarrow> bool \<Rightarrow> rpc_error + block option) \<Rightarrow>
   (string \<Rightarrow> (string \<times> bool) rpc_request list \<Rightarrow> raw_block option batch_reply) \<Rightarrow>
   (int \<Rightarrow> string) \<Rightarrow> string \<Rightarrow> nat \<Rightarrow> gas_point list" where
  "getGasUsageHistory getBlock fetch timeLabel PROXY_URL minutes =
     (case getBlock Latest False of
        Inl e \<Rightarrow> []
      | Inr None \<Rightarrow> []
      | Inr (Some latestBlock) \<Rightarrow>
          (case getBlock (BlockNumber (number latestBlock - 100)) False of
             Inl e \<Rightarrow> []
           | Inr olderBlock \<Rightarrow>
               (let blocksToFetch = blocksToFetchOf latestBlock olderBlock minutes;
                    blockNumbersToFetch = blockNumbersToFetchOf (number latestBlock) blocksToFetch
                in case batchBlockVisionData fetch PROXY_URL (gasBlockRequests blockNumbersToFetch) None of
                     Inl e \<Rightarrow> []
                   | Inr results \<Rightarrow>
                       (let blocks = filterBoolean results;
                            gasUsageMap = foldl gasStep Map.empty blocks
                        in finalDataOf timeLabel gasUsageMap (timestamp latestBlock) minutes))))"

section \<open>Polling shell: merging fetched data into panel state\<close>

subsection \<open>Events panel\<close>

datatype event_type =
    ContractCreation
  | HighGasUsage
  | FailedTransaction
  | NetworkUpdate
  | LargeTransfer
  | ContractInteraction
  | DebugTransaction

datatype event_status = StatusSuccess | StatusWarning | StatusError | StatusInfo

text \<open>
  An \<open>Event\<close> of the service module. \<open>ev_time\<close> is the block's timestamp in seconds, which
  the source carries as the ISO string of \<open>new Date(timestamp * 1000)\<close> and reads back
  with \<open>getTime()\<close>; the formatted \<open>details\<close>, \<open>gasUsed\<close> and \<open>value\<close> strings are left out.
\<close>

record event =
  ev_id :: string
  ev_type :: event_type
  ev_time :: int
  ev_address :: string
  ev_status :: event_status
  ev_blockNumber :: int
  ev_transactionHash :: string

text \<open>\<open>Array.prototype.findIndex\<close>: the first index whose element passes, or \<open>-1\<close>.\<close>

fun findIndex :: "('a \<Rightarrow> bool) \<Rightarrow> 'a list \<Rightarrow> int" where
  "findIndex P [] = - 1"
| "findIndex P (x # xs) =
     (if P x then 0 else (let i = findIndex P xs in if i < 0 then - 1 else i + 1))"

text \<open>
  \<open>combined.filter((event, index, self) => index === self.findIndex(e => e.id === event.id))\<close>
\<close>

definition uniqueEvents :: "event list \<Rightarrow> event list" where
  "uniqueEvents combined =
     map snd (filter (\<lambda>(index, event). int index = findIndex (\<lambda>e. ev_id e = ev_id event) combined)
                (enumerate 0 combined))"

text \<open>The updater that \<open>checkForNewEvents\<close> passes to \<open>setEvents\<close>.\<close>

definition mergeNewEvents :: "event list \<Rightarrow> event list \<Rightarrow> event list" where
  "mergeNewEvents newEvents prevEvents = take 20 (uniqueEvents (newEvents @ prevEvents))"

text \<open>The events state after \<open>checkForNewEvents\<close> received \<open>newEvents\<close>.\<close>

definition checkForNewEvents :: "event list \<Rightarrow> event list \<Rightarrow> event list" where
  "checkForNewEvents newEvents prevEvents =
     (if length newEvents > 0 then mergeNewEvents newEvents prevEvents else prevEvents)"

subsection \<open>High-gas transactions panel\<close>

text \<open>An element of \<open>highGasTxs\<close> as \<open>getGasOverviewData\<close> builds it.\<close>

record high_gas_tx =
  hg_hash :: string
  hg_gasUsed :: string
  hg_timestamp :: string

text \<open>
  The updater that \<open>fetchOverview\<close> passes to \<open>setPersistedHighGasTxs\<close>. A JavaScript
  \<open>Map\<close> keeps its keys in insertion order and \<open>set\<close> on a present key replaces the value
  in place: that is \<open>AList.update\<close> on an association list. \<open>txMap.has(k)\<close> is
  \<open>map_of txMap k \<noteq> None\<close>.
\<close>

definition mergeHighGasTxs :: "high_gas_tx list \<Rightarrow> high_gas_tx list \<Rightarrow> high_gas_tx list" where
  "mergeHighGasTxs highGasTxs prev =
     (let txMap0 = foldl (\<lambda>txMap tx. AList.update (hg_hash tx) tx txMap) [] highGasTxs;
          txMap1 = foldl (\<lambda>txMap tx. if map_of txMap (hg_hash tx) = None
                                      then AList.update (hg_hash tx) tx txMap else txMap)
                     txMap0 prev
      in take 12 (map snd txMap1))"

section \<open>Aggregators: recent and new events\<close>

text \<open>
  The awaited calls are parameters: \<open>getBlock\<close> (\<open>getBlockByNumber\<close>), \<open>getReceipt\<close>
  (\<open>getTransactionReceipt\<close>) and the outcome of \<open>getLatestBlockNumber\<close>, a height.
  \<open>largeTransfer v\<close> stands for the test \<open>Number(formatEth(v)) > 1\<close>, which the source
  evaluates in IEEE doubles on the wei amount \<open>v\<close>; it is left open here.
\<close>

text \<open>An event object with the id \<open>`event-${eventId}`\<close>.\<close>

definition mkEvent :: "nat \<Rightarrow> event_type \<Rightarrow> block \<Rightarrow> string \<Rightarrow> event_status \<Rightarrow> transaction \<Rightarrow> event" where
  "mkEvent eventId ty block address st tx =
     \<lparr>ev_id = ''event-'' @ natToString 10 eventId, ev_type = ty, ev_time = timestamp block,
      ev_address = address, ev_status = st, ev_blockNumber = number block,
      ev_transactionHash = tx_hash tx\<rparr>"

text \<open>\<open>tx.to || 'Unknown'\<close>\<close>

definition orUnknown :: "string option \<Rightarrow> string" where
  "orUnknown v = (if truthy v then the v else ''Unknown'')"

text \<open>
  The body of the loop over a block's transactions, on the pair of the \<open>events\<close> array and
  the counter \<open>eventId\<close>; each \<open>push\<close> uses the counter and increments it. A \<open>SyntaxError\<close>
  of \<open>hexToBigInt(tx.value)\<close> leaves the loop (to the function's \<open>catch\<close>); a receipt that
  cannot be fetched only skips the failed-transaction test. The record does not tell an
  absent \<open>to\<close> from \<open>null\<close>: the source's test \<open>tx.to === null\<close> holds for \<open>null\<close> only.
\<close>

definition scanTx ::
  "(string \<Rightarrow> rpc_error + receipt option) \<Rightarrow> (int \<Rightarrow> bool) \<Rightarrow> block \<Rightarrow>
   event list \<times> nat \<Rightarrow> transaction \<Rightarrow> rpc_error + event list \<times> nat" where
  "scanTx getReceipt largeTransfer block st tx =
     (case hexToBigInt (tx_value tx) of
        Inl e \<Rightarrow> Inl e
      | Inr wei \<Rightarrow>
          (let st1 = (if tx_to tx = None \<or> tx_to tx = Some ''0x''
                      then (fst st @ [mkEvent (snd st) ContractCreation block (tx_hash tx) StatusSuccess tx],
                            snd st + 1)
                      else st);
               reverted = (case getReceipt (tx_hash tx) of
                             Inl e \<Rightarrow> False
                           | Inr None \<Rightarrow> False
                           | Inr (Some receipt) \<Rightarrow> hexToNumber (rc_status receipt) = Num 0);
               st2 = (if reverted
                      then (fst st1 @ [mkEvent (snd st1) FailedTransaction block (orUnknown (tx_to tx)) StatusError tx],
                            snd st1 + 1)
                      else st1);
               st3 = (if largeTransfer wei
                      then (fst st2 @ [mkEvent (snd st2) LargeTransfer block (orUnknown (tx_to tx)) StatusInfo tx],
                            snd st2 + 1)
                      else st2);
               highGas = (case hexToNumber (tx_gas tx) of NaN \<Rightarrow> False | Num g \<Rightarrow> g > 500000);
               st4 = (if highGas
                      then (fst st3 @ [mkEvent (snd st3) HighGasUsage block (orUnknown (tx_to tx)) StatusWarning tx],
                            snd st3 + 1)
                      else st3)
           in Inr st4))"

fun scanTxs ::
  "(string \<Rightarrow> rpc_error + receipt option) \<Rightarrow> (int \<Rightarrow> bool) \<Rightarrow> block \<Rightarrow>
   event list \<times> nat \<Rightarrow> transaction list \<Rightarrow> rpc_error + event list \<times> nat" where
  "scanTxs getReceipt largeTransfer block st [] = Inr st"
| "scanTxs getReceipt largeTransfer block st (tx # txs) =
     (case scanTx getReceipt largeTransfer block st tx of
        Inl e \<Rightarrow> Inl e
      | Inr st1 \<Rightarrow> scanTxs getReceipt largeTransfer block st1 txs)"

text \<open>
  The loop over the blocks: a \<open>null\<close> block or one without \<open>prefetchedTransactions\<close> is
  passed over; of the others the first three transactions are scanned.
\<close>

fun scanBlocks ::
  "(string \<Rightarrow> rpc_error + receipt option) \<Rightarrow> (int \<Rightarrow> bool) \<Rightarrow>
   event list \<times> nat \<Rightarrow> block option list \<Rightarrow> rpc_error + event list \<times> nat" where
  "scanBlocks getReceipt largeTransfer st [] = Inr st"
| "scanBlocks getReceipt largeTransfer st (b # bs) =
     (case b of
        None \<Rightarrow> scanBlocks getReceipt largeTransfer st bs
      | Some block \<Rightarrow>
          (case prefetchedTransactions block of
             None \<Rightarrow> scanBlocks getReceipt largeTransfer st bs
           | Some ptxs \<Rightarrow>
               (case scanTxs getReceipt largeTransfer block st (take 3 ptxs) of
                  Inl e \<Rightarrow> Inl e
                | Inr st1 \<Rightarrow> scanBlocks getReceipt largeTransfer st1 bs)))"

text \<open>\<open>Promise.all\<close> over block fetches: the first rejection rejects the whole.\<close>

fun fetchBlocks ::
  "(block_tag \<Rightarrow> bool \<Rightarrow> rpc_error + block option) \<Rightarrow> int list \<Rightarrow> rpc_error + block option list" where
  "fetchBlocks getBlock [] = Inr []"
| "fetchBlocks getBlock (n # ns) =
     (case getBlock (BlockNumber n) True of
        Inl e \<Rightarrow> Inl e
      | Inr b \<Rightarrow> (case fetchBlocks getBlock ns of Inl e \<Rightarrow> Inl e | Inr bs \<Rightarrow> Inr (b # bs)))"

text \<open>\<open>events.sort((a, b) => new Date(b.time).getTime() - new Date(a.time).getTime())\<close>\<close>

definition newestFirst :: "event list \<Rightarrow> event list" where
  "newestFirst events = sort_key (\<lambda>e. - ev_time e) events"

text \<open>
  \<open>getRecentEvents\<close>: the \<open>events\<close> array as the scan leaves it (counter started at 1),
  and the function's result.
\<close>

definition recentEventsScan ::
  "(rpc_error + int) \<Rightarrow> (block_tag \<Rightarrow> bool \<Rightarrow> rpc_error + block option) \<Rightarrow>
   (string \<Rightarrow> rpc_error + receipt option) \<Rightarrow> (int \<Rightarrow> bool) \<Rightarrow> nat \<Rightarrow> rpc_error + event list" where
  "recentEventsScan latestCall getBlock getReceipt largeTransfer blockCount0 =
     (case latestCall of
        Inl e \<Rightarrow> Inl e
      | Inr latestBlock \<Rightarrow>
          (case fetchBlocks getBlock (map (\<lambda>i. latestBlock - int i) [0..<blockCount0]) of
             Inl e \<Rightarrow> Inl e
           | Inr blocks \<Rightarrow>
               (case scanBlocks getReceipt largeTransfer ([], 1) blocks of
                  Inl e \<Rightarrow> Inl e
                | Inr st \<Rightarrow> Inr (fst st))))"

definition getRecentEvents ::
  "(rpc_error + int) \<Rightarrow> (block_tag \<Rightarrow> bool \<Rightarrow> rpc_error + block option) \<Rightarrow>
   (string \<Rightarrow> rpc_error + receipt option) \<Rightarrow> (int \<Rightarrow> bool) \<Rightarrow> nat \<Rightarrow> event list" where
  "getRecentEvents latestCall getBlock getReceipt largeTransfer blockCount0 =
     (case recentEventsScan latestCall getBlock getReceipt largeTransfer blockCount0 of
        Inl e \<Rightarrow> []
      | Inr events \<Rightarrow> take 20 (newestFirst events))"




section \<open>Concrete scenarios\<close>

text \<open>Three block requests, answered in reverse order with an error for the middle one.\<close>

definition reqs3 :: "(string \<times> string) list" where
  "reqs3 = [(''eth_getBlockByNumber'', ''0x64''), (''eth_getBlockByNumber'', ''0x63''),
            (''eth_getBlockByNumber'', ''0x62'')]"

definition reply3 :: "string sub_response list" where
  "reply3 = [\<lparr>rs_id = 2, rs_result = ''block 98'', rs_error = None\<rparr>,
             \<lparr>rs_id = 1, rs_result = [], rs_error = Some ''internal error''\<rparr>,
             \<lparr>rs_id = 0, rs_result = ''block 100'', rs_error = None\<rparr>]"

text \<open>The same batch with the answer to request 1 left out by the provider.\<close>

definition reply2 :: "string sub_response list" where
  "reply2 = [\<lparr>rs_id = 2, rs_result = ''block 98'', rs_error = None\<rparr>,
             \<lparr>rs_id = 0, rs_result = [], rs_error = Some ''internal error''\<rparr>]"

definition quickUrl :: string where
  "quickUrl = ''https://example.quiknode.pro/key/''"

definition publicUrl :: string where
  "publicUrl = ''https://testnet-rpc.monad.xyz''"

text \<open>A window opened at 5000 ms, and twenty calls 10 ms apart inside it.\<close>

definition freshLimiter :: rate_limiter where
  "freshLimiter = \<lparr>requestCount = 0, lastResetTime = 5000\<rparr>"

definition freshClient :: client where
  "freshClient = \<lparr>limiter = freshLimiter, sent = []\<rparr>"

definition burstTimes :: "int list" where
  "burstTimes = map (\<lambda>i. 5000 + 10 * int i) [0..<20]"

definition heightFetch :: "string \<Rightarrow> unit rpc_request \<Rightarrow> string single_reply" where
  "heightFetch url req = CallJson ''0x64'' None"

definition exTx :: "int option \<Rightarrow> string \<Rightarrow> transaction" where
  "exTx st h = \<lparr>tx_hash = h, tx_from = Some ''0xAa'', tx_to = Some ''0xbb'',
                tx_value = Some ''0x0'', tx_gas = Some ''0x5208'', tx_status = st\<rparr>"

definition exBlock :: "int \<Rightarrow> transaction list \<Rightarrow> bool \<Rightarrow> block" where
  "exBlock n txs includeTransactions =
     \<lparr>number = n, timestamp = 1000 + 2 * n, gasUsed = ''0x5208'',
      transactions = (if includeTransactions then map TxObject txs else map (\<lambda>t. TxHash (tx_hash t)) txs),
      prefetchedTransactions = (if includeTransactions \<and> txs \<noteq> [] then Some txs else None)\<rparr>"

text \<open>A chain of three blocks (heights 0 to 2) with the given transactions in each.\<close>

definition exChain :: "transaction list \<Rightarrow> block_tag \<Rightarrow> bool \<Rightarrow> rpc_error + block option" where
  "exChain txs tag includeTransactions =
     (case tag of
        Latest \<Rightarrow> Inr (Some (exBlock 2 txs includeTransactions))
      | BlockNumber n \<Rightarrow> if 0 \<le> n \<and> n \<le> 2 then Inr (Some (exBlock n txs includeTransactions))
                        else Inr None)"

text \<open>
  A batch of three block requests from height 100 in which the first sub-request fails
  and the other two succeed, and a batch of two blocks without transactions.
\<close>

definition lossyFetch :: "string \<Rightarrow> (string \<times> bool) rpc_request list \<Rightarrow> block option batch_reply" where
  "lossyFetch url batch =
     JsonArray [\<lparr>rs_id = 0, rs_result = None, rs_error = Some ''block not available''\<rparr>,
                \<lparr>rs_id = 1, rs_result = Some (exBlock 99 [] True), rs_error = None\<rparr>,
                \<lparr>rs_id = 2, rs_result = Some (exBlock 98 [] True), rs_error = None\<rparr>]"

definition quietFetch :: "string \<Rightarrow> (string \<times> bool) rpc_request list \<Rightarrow> block option batch_reply" where
  "quietFetch url batch =
     JsonArray [\<lparr>rs_id = 0, rs_result = Some (exBlock 2 [] True), rs_error = None\<rparr>,
                \<lparr>rs_id = 1, rs_result = Some (exBlock 1 [] True), rs_error = None\<rparr>]"

definition noReceipts :: "string \<Rightarrow> rpc_error + receipt option" where
  "noReceipts hash = Inr None"

text \<open>
  Three raw blocks for the gas history: two in the minute of second 1004, one in the
  minute before; a label function that prints the second; a provider that is down.
\<close>

definition gasBlockA :: raw_block where
  "gasBlockA = \<lparr>rb_timestamp = TsString ''0x3ec'', rb_gasUsed = Some ''0x5208''\<rparr>"

definition gasBlockB :: raw_block where
  "gasBlockB = \<lparr>rb_timestamp = TsString ''0x3e8'', rb_gasUsed = Some ''0x5208''\<rparr>"

definition gasBlockC :: raw_block where
  "gasBlockC = \<lparr>rb_timestamp = TsString ''0x3b0'', rb_gasUsed = Some ''0x1''\<rparr>"

definition gasBlocks :: "raw_block list" where
  "gasBlocks = [gasBlockA, gasBlockB, gasBlockC]"

definition gasFetch :: "string \<Rightarrow> (string \<times> bool) rpc_request list \<Rightarrow> raw_block option batch_reply" where
  "gasFetch url batch =
     JsonArray [\<lparr>rs_id = 1, rs_result = Some gasBlockB, rs_error = None\<rparr>,
                \<lparr>rs_id = 0, rs_result = Some gasBlockA, rs_error = None\<rparr>,
                \<lparr>rs_id = 2, rs_result = Some gasBlockC, rs_error = None\<rparr>]"

definition secondsLabel :: "int \<Rightarrow> string" where
  "secondsLabel t = numToString 10 (Num t)"

definition downFetch :: "block_tag \<Rightarrow> bool \<Rightarrow> rpc_error + block option" where
  "downFetch tag includeTransactions = Inl TransportFailure"




section \<open>Verified properties\<close>

subsection \<open>Batched calls\<close>

lemma batchPayload_ids: "map rq_id (batchPayload requests) = map int [0..<length requests]"
  by (simp add: batchPayload_def enumerate_eq_zip map_equality_iff split_beta)

lemma sorted_ids_of_full_reply:
  assumes "mset (map rs_id data) = mset (map int [0..<n])"
  shows "map rs_id (sort_key rs_id data) = map int [0..<n]"
proof -
  have s: "sorted (map int [0..<n])"
    by (simp add: sorted_map sorted_wrt_iff_nth_less)
  have "mset (map rs_id (sort_key rs_id data)) = mset (map int [0..<n])"
    using assms by simp
  then have "sort (map int [0..<n]) = map rs_id (sort_key rs_id data)"
    by (intro properties_for_sort) simp_all
  then show ?thesis
    using s by (simp add: sorted_sort_id)
qed

lemma full_reply_positions:
  assumes "mset (map rs_id data) = mset (map int [0..<n])" and "res \<in> set data"
  shows "nat (rs_id res) < n \<and> sort_key rs_id data ! nat (rs_id res) = res"
proof -
  let ?s = "sort_key rs_id data"
  have ids: "map rs_id ?s = map int [0..<n]"
    by (rule sorted_ids_of_full_reply [OF assms(1)])
  then have len: "length ?s = n"
    by (metis length_map length_upt minus_nat.diff_0)
  from assms(2) have "res \<in> set ?s" by simp
  then obtain j where j: "j < length ?s" "?s ! j = res"
    unfolding in_set_conv_nth by blast
  have "rs_id (?s ! j) = map int [0..<n] ! j"
    using j(1) ids by (metis nth_map)
  then have "rs_id res = int j"
    using j len by simp
  then show ?thesis using j len by simp
qed

text \<open>
  C1. When the provider answers a batch of N requests with all N sub-responses, in any
  order (the ids of the reply are a permutation of the ids sent), \<open>batchBlockVisionData\<close>
  returns a list of exactly N entries in which every sub-response sits at the index of its
  request: \<open>null\<close> if it carries an error, its result otherwise.
\<close>

theorem batch_full_reply_positional:
  assumes "fetch (orUrl rpcUrl PROXY_URL) (batchPayload requests) = JsonArray data"
    and "mset (map rs_id data) = mset (map rq_id (batchPayload requests))"
  shows "\<exists>out. batchBlockVisionData fetch PROXY_URL requests rpcUrl = Inr out
           \<and> length out = length requests
           \<and> (\<forall>res \<in> set data. out ! nat (rs_id res)
                 = (if rs_error res \<noteq> None then None else Some (rs_result res)))"
proof -
  let ?n = "length requests"
  let ?s = "sort_key rs_id data"
  have m: "mset (map rs_id data) = mset (map int [0..<?n])"
    using assms(2) by (simp only: batchPayload_ids)
  have len: "length data = ?n"
    using m by (metis length_map length_upt minus_nat.diff_0 size_mset)
  have out: "batchBlockVisionData fetch PROXY_URL requests rpcUrl = Inr (map subResult ?s)"
    by (simp add: batchBlockVisionData_def assms(1))
  have pos: "map subResult ?s ! nat (rs_id res) = subResult res" if "res \<in> set data" for res
    using full_reply_positions [OF m that] len by simp
  show ?thesis
    using out len pos by (simp add: subResult_def)
qed

theorem batch_full_reply_positional_witness:
  "mset (map rs_id reply3) = mset (map rq_id (batchPayload reqs3))
   \<and> batchBlockVisionData (\<lambda>url batch. JsonArray reply3) publicUrl reqs3 None
       = Inr [Some ''block 100'', None, Some ''block 98'']"
proof -
  let ?fetch = "\<lambda>(url :: string) (batch :: string rpc_request list). JsonArray reply3"
  have h1: "?fetch (orUrl None publicUrl) (batchPayload reqs3) = JsonArray reply3"
    by simp
  have h2: "mset (map rs_id reply3) = mset (map rq_id (batchPayload reqs3))"
    by (simp add: reply3_def reqs3_def batchPayload_def)
  obtain out where o: "batchBlockVisionData ?fetch publicUrl reqs3 None = Inr out"
      "length out = length reqs3"
      "\<forall>res \<in> set reply3. out ! nat (rs_id res)
         = (if rs_error res \<noteq> None then None else Some (rs_result res))"
    using batch_full_reply_positional [OF h1 h2] by blast
  have "length out = 3"
    using o(2) by (simp add: reqs3_def)
  moreover have "out ! 0 = Some ''block 100''" "out ! 1 = None" "out ! 2 = Some ''block 98''"
    using o(3) by (simp_all add: reply3_def)
  ultimately have "out = [Some ''block 100'', None, Some ''block 98'']"
    by (simp add: list_eq_iff_nth_eq nth_Cons' less_Suc_eq eval_nat_numeral)
  then show ?thesis
    using h2 o(1) by simp
qed

lemma index_below_id:
  assumes srt: "sorted (map rs_id s)" and dist: "distinct (map rs_id s)"
    and nonneg: "\<forall>r \<in> set s. 0 \<le> rs_id r"
    and j: "j < length s"
    and k: "0 \<le> k" "k < rs_id (s ! j)" "k \<notin> rs_id ` set s"
  shows "j < nat (rs_id (s ! j))"
proof -
  let ?i = "rs_id (s ! j)"
  let ?A = "rs_id ` set (take j s)"
  have "distinct (map rs_id (take j s))"
    using dist by (simp add: take_map [symmetric])
  then have card: "card ?A = j"
    using j by (metis distinct_card length_map length_take min.absorb2 less_imp_le_nat set_map)
  have sub: "?A \<subseteq> {0..<?i} - {k}"
  proof
    fix x assume "x \<in> ?A"
    then obtain l where l: "l < j" "x = rs_id (s ! l)"
      using j by (auto simp: in_set_conv_nth)
    have le: "rs_id (s ! l) \<le> ?i"
      using srt l(1) j by (simp add: sorted_iff_nth_mono)
    have "rs_id (s ! l) \<noteq> ?i"
      using dist l(1) j by (simp add: distinct_conv_nth)
    moreover have "s ! l \<in> set s" using l(1) j by simp
    ultimately show "x \<in> {0..<?i} - {k}"
      using le l(2) nonneg k(3) by force
  qed
  have "card ({0..<?i} - {k}) = nat ?i - 1"
    using k(1,2) by simp
  then have "card ?A \<le> nat ?i - 1"
    using sub by (metis card_mono finite_Diff finite_atLeastLessThan_int)
  then show ?thesis
    using card k(1,2) by linarith
qed

text \<open>
  C9. When the provider's array holds fewer sub-responses than there were requests (distinct
  ids, a proper subset of the ids sent), \<open>batchBlockVisionData\<close> returns one entry per
  received sub-response, so a list strictly shorter than the request list: entry \<open>j\<close> is
  made from the \<open>j\<close>-th sub-response in id order, and any sub-response whose id lies above
  an omitted id sits at an index below its request's index. The \<open>null\<close> entries are as many
  as the received sub-responses that carry an error.
\<close>

theorem batch_short_reply_shifts:
  assumes fetched: "fetch (orUrl rpcUrl PROXY_URL) (batchPayload requests) = JsonArray data"
    and dist: "distinct (map rs_id data)"
    and sub: "set (map rs_id data) \<subset> set (map rq_id (batchPayload requests))"
  shows "\<exists>out. batchBlockVisionData fetch PROXY_URL requests rpcUrl = Inr out
           \<and> length out = length data
           \<and> length out < length requests
           \<and> (\<forall>j < length out. out ! j = subResult (sort_key rs_id data ! j))
           \<and> (\<forall>j < length out. \<forall>k. 0 \<le> k \<and> k < rs_id (sort_key rs_id data ! j)
                   \<and> k \<notin> rs_id ` set data \<longrightarrow>
                 j < nat (rs_id (sort_key rs_id data ! j)))
           \<and> length (filter (\<lambda>x. x = None) out)
                = length (filter (\<lambda>res. rs_error res \<noteq> None) data)"
proof -
  let ?n = "length requests"
  let ?s = "sort_key rs_id data"
  have out: "batchBlockVisionData fetch PROXY_URL requests rpcUrl = Inr (map subResult ?s)"
    by (simp add: batchBlockVisionData_def fetched)
  have ids: "set (map rs_id data) \<subset> int ` {0..<?n}"
    using sub by (simp only: batchPayload_ids) simp
  have "card (set (map rs_id data)) < card (int ` {0..<?n})"
    using ids by (intro psubset_card_mono) auto
  moreover have "card (set (map rs_id data)) = length data"
    using dist by (metis distinct_card length_map)
  ultimately have short: "length data < ?n"
    by (simp add: card_image)
  have nonneg: "\<forall>r \<in> set ?s. 0 \<le> rs_id r"
    using ids by auto
  have shift: "j < nat (rs_id (?s ! j))"
    if "j < length data" "0 \<le> k" "k < rs_id (?s ! j)" "k \<notin> rs_id ` set data" for j k
    using index_below_id [of ?s j k] dist nonneg that
    by (simp add: distinct_map)
  have "length (filter (\<lambda>x. x = None) (map subResult ?s))
          = length (filter (\<lambda>res. rs_error res \<noteq> None) ?s)"
    by (simp add: filter_map comp_def subResult_def)
  also have "\<dots> = size (filter_mset (\<lambda>res. rs_error res \<noteq> None) (mset ?s))"
    by (simp only: mset_filter [symmetric] size_mset)
  also have "\<dots> = length (filter (\<lambda>res. rs_error res \<noteq> None) data)"
    by (simp only: mset_sort mset_filter [symmetric] size_mset)
  finally have nulls: "length (filter (\<lambda>x. x = None) (map subResult ?s))
          = length (filter (\<lambda>res. rs_error res \<noteq> None) data)" .
  have shift': "\<forall>j < length (map subResult ?s). \<forall>k. 0 \<le> k \<and> k < rs_id (?s ! j)
                   \<and> k \<notin> rs_id ` set data \<longrightarrow> j < nat (rs_id (?s ! j))"
    using shift by auto
  show ?thesis
    unfolding out using short nulls shift' by simp
qed

theorem batch_short_reply_shifts_witness:
  "distinct (map rs_id reply2)
   \<and> set (map rs_id reply2) \<subset> set (map rq_id (batchPayload reqs3))
   \<and> batchBlockVisionData (\<lambda>url batch. JsonArray reply2) publicUrl reqs3 None
       = Inr [None, Some ''block 98'']
   \<and> (\<exists>out. batchBlockVisionData (\<lambda>url batch. JsonArray reply2) publicUrl reqs3 None = Inr out
         \<and> length out < length reqs3
         \<and> length (filter (\<lambda>x. x = None) out) = 1)"
proof -
  let ?fetch = "\<lambda>(url :: string) (batch :: string rpc_request list). JsonArray reply2"
  have h1: "?fetch (orUrl None publicUrl) (batchPayload reqs3) = JsonArray reply2"
    by simp
  have h2: "distinct (map rs_id reply2)"
    by (simp add: reply2_def)
  have "set (map rs_id reply2) \<subseteq> set (map rq_id (batchPayload reqs3))"
    and "1 \<in> set (map rq_id (batchPayload reqs3))" and "1 \<notin> set (map rs_id reply2)"
    by (simp_all add: reply2_def reqs3_def batchPayload_def)
  then have h3: "set (map rs_id reply2) \<subset> set (map rq_id (batchPayload reqs3))"
    by blast
  have v: "batchBlockVisionData ?fetch publicUrl reqs3 None = Inr [None, Some ''block 98'']"
    by (simp add: batchBlockVisionData_def reply2_def subResult_def)
  have n: "length (filter (\<lambda>res. rs_error res \<noteq> None) reply2) = 1"
    by (simp add: reply2_def)
  obtain out where o: "batchBlockVisionData ?fetch publicUrl reqs3 None = Inr out"
      "length out < length reqs3"
      "length (filter (\<lambda>x. x = None) out)
         = length (filter (\<lambda>res. rs_error res \<noteq> None) reply2)"
    using batch_short_reply_shifts [of ?fetch None publicUrl reqs3 reply2, OF h1 h2 h3]
    by blast
  have "\<exists>out. batchBlockVisionData ?fetch publicUrl reqs3 None = Inr out
         \<and> length out < length reqs3
         \<and> length (filter (\<lambda>x. x = None) out) = 1"
    using o n by simp
  then show ?thesis
    using h2 h3 v by blast
qed

subsection \<open>The rate limiter\<close>

lemma wait_one_second:
  assumes "0 < w" "w \<le> 1000"
  shows "\<lceil>rat_of_int w / 1000\<rceil> = 1"
proof -
  have "0 < rat_of_int w / 1000" using assms(1) by simp
  moreover have "rat_of_int w / 1000 \<le> 1" using assms(2) by simp
  ultimately show ?thesis by (simp add: ceiling_eq_iff)
qed

lemma checkRateLimit_pass:
  assumes "requestCount rl < RATE_LIMIT" "now - lastResetTime rl < RATE_LIMIT_WINDOW"
  shows "checkRateLimit now rl = (Inr (), rl\<lparr>requestCount := requestCount rl + 1\<rparr>)"
  using assms by (simp add: checkRateLimit_def)

lemma checkRateLimit_reject:
  assumes "RATE_LIMIT \<le> requestCount rl" "0 \<le> now - lastResetTime rl"
    "now - lastResetTime rl < RATE_LIMIT_WINDOW"
  shows "checkRateLimit now rl = (Inl (RateLimitExceeded 1), rl)"
proof -
  have "\<lceil>rat_of_int (1000 - (now - lastResetTime rl)) / 1000\<rceil> = 1"
    using assms(2,3) by (intro wait_one_second) (simp_all add: RATE_LIMIT_WINDOW_def)
  then show ?thesis
    using assms by (simp add: checkRateLimit_def Let_def RATE_LIMIT_WINDOW_def)
qed

lemma checkRateLimit_reset:
  assumes "RATE_LIMIT_WINDOW \<le> now - lastResetTime rl"
  shows "checkRateLimit now rl = (Inr (), rl\<lparr>requestCount := 1, lastResetTime := now\<rparr>)"
  using assms by (simp add: checkRateLimit_def RATE_LIMIT_def)

lemma call_counted:
  assumes quick: "sublist ''quiknode'' (orUrl rpcUrl PROXY_URL)"
    and room: "requestCount (limiter c) < RATE_LIMIT"
    and inside: "now - lastResetTime (limiter c) < RATE_LIMIT_WINDOW"
  shows "\<exists>r. getBlockVisionData fetch PROXY_URL method params rpcUrl now c
               = (r, c\<lparr>limiter := (limiter c)\<lparr>requestCount := requestCount (limiter c) + 1\<rparr>,
                       sent := sent c @ [(orUrl rpcUrl PROXY_URL, method)]\<rparr>)
             \<and> (\<forall>n. r \<noteq> Inl (RateLimitExceeded n))"
  using quick checkRateLimit_pass [OF room inside]
  by (simp add: getBlockVisionData_def Let_def split: single_reply.split option.split)

lemma call_rejected:
  assumes quick: "sublist ''quiknode'' (orUrl rpcUrl PROXY_URL)"
    and full: "RATE_LIMIT \<le> requestCount (limiter c)"
    and inside: "0 \<le> now - lastResetTime (limiter c)"
      "now - lastResetTime (limiter c) < RATE_LIMIT_WINDOW"
  shows "getBlockVisionData fetch PROXY_URL method params rpcUrl now c
           = (Inl (RateLimitExceeded 1), c)"
  using quick checkRateLimit_reject [OF full inside]
  by (simp add: getBlockVisionData_def)

lemma call_after_window:
  assumes quick: "sublist ''quiknode'' (orUrl rpcUrl PROXY_URL)"
    and later: "RATE_LIMIT_WINDOW \<le> now - lastResetTime (limiter c)"
  shows "\<exists>r. getBlockVisionData fetch PROXY_URL method params rpcUrl now c
               = (r, c\<lparr>limiter := (limiter c)\<lparr>requestCount := 1, lastResetTime := now\<rparr>,
                       sent := sent c @ [(orUrl rpcUrl PROXY_URL, method)]\<rparr>)
             \<and> (\<forall>n. r \<noteq> Inl (RateLimitExceeded n))"
  using quick checkRateLimit_reset [OF later]
  by (simp add: getBlockVisionData_def Let_def split: single_reply.split option.split)

lemma calls_counted:
  assumes quick: "sublist ''quiknode'' (orUrl rpcUrl PROXY_URL)"
    and room: "requestCount (limiter c) + int (length ts) \<le> RATE_LIMIT"
    and inside: "\<forall>t \<in> set ts. t - lastResetTime (limiter c) < RATE_LIMIT_WINDOW"
  shows "\<exists>rs. getBlockVisionDataCalls fetch PROXY_URL method params rpcUrl ts c
               = (rs, c\<lparr>limiter := (limiter c)\<lparr>requestCount := requestCount (limiter c) + int (length ts)\<rparr>,
                        sent := sent c @ replicate (length ts) (orUrl rpcUrl PROXY_URL, method)\<rparr>)
             \<and> length rs = length ts
             \<and> (\<forall>r \<in> set rs. \<forall>n. r \<noteq> Inl (RateLimitExceeded n))"
  using room inside
proof (induction ts arbitrary: c)
  case Nil
  then show ?case by simp
next
  case (Cons t ts)
  let ?c1 = "c\<lparr>limiter := (limiter c)\<lparr>requestCount := requestCount (limiter c) + 1\<rparr>,
                sent := sent c @ [(orUrl rpcUrl PROXY_URL, method)]\<rparr>"
  obtain r where r: "getBlockVisionData fetch PROXY_URL method params rpcUrl t c = (r, ?c1)"
      "\<forall>n. r \<noteq> Inl (RateLimitExceeded n)"
    using call_counted [OF quick, of c t fetch "method" params] Cons.prems by auto
  have "\<exists>rs. getBlockVisionDataCalls fetch PROXY_URL method params rpcUrl ts ?c1
               = (rs, ?c1\<lparr>limiter := (limiter ?c1)\<lparr>requestCount := requestCount (limiter ?c1) + int (length ts)\<rparr>,
                        sent := sent ?c1 @ replicate (length ts) (orUrl rpcUrl PROXY_URL, method)\<rparr>)
             \<and> length rs = length ts
             \<and> (\<forall>r \<in> set rs. \<forall>n. r \<noteq> Inl (RateLimitExceeded n))"
    using Cons.prems by (intro Cons.IH) simp_all
  then obtain rs where rs: "getBlockVisionDataCalls fetch PROXY_URL method params rpcUrl ts ?c1
               = (rs, ?c1\<lparr>limiter := (limiter ?c1)\<lparr>requestCount := requestCount (limiter ?c1) + int (length ts)\<rparr>,
                        sent := sent ?c1 @ replicate (length ts) (orUrl rpcUrl PROXY_URL, method)\<rparr>)"
      "length rs = length ts" "\<forall>r \<in> set rs. \<forall>n. r \<noteq> Inl (RateLimitExceeded n)"
    by blast
  have "getBlockVisionDataCalls fetch PROXY_URL method params rpcUrl (t # ts) c
          = (r # rs, c\<lparr>limiter := (limiter c)\<lparr>requestCount := requestCount (limiter c) + int (length (t # ts))\<rparr>,
                        sent := sent c @ replicate (length (t # ts)) (orUrl rpcUrl PROXY_URL, method)\<rparr>)"
    by (simp add: r(1) rs(1) add.assoc replicate_append_same [symmetric] del: replicate_append_same)
  then show ?case
    using r(2) rs(2,3) by auto
qed

lemma calls_rejected:
  assumes quick: "sublist ''quiknode'' (orUrl rpcUrl PROXY_URL)"
    and full: "RATE_LIMIT \<le> requestCount (limiter c)"
    and inside: "\<forall>t \<in> set us. 0 \<le> t - lastResetTime (limiter c)
                   \<and> t - lastResetTime (limiter c) < RATE_LIMIT_WINDOW"
  shows "getBlockVisionDataCalls fetch PROXY_URL method params rpcUrl us c
           = (replicate (length us) (Inl (RateLimitExceeded 1)), c)"
  using inside
proof (induction us)
  case Nil
  then show ?case by simp
next
  case (Cons u us)
  have "getBlockVisionData fetch PROXY_URL method params rpcUrl u c = (Inl (RateLimitExceeded 1), c)"
    using Cons.prems by (intro call_rejected [OF quick full]) simp_all
  then show ?case
    using Cons by simp
qed


text \<open>
  C3. The limiter allows \<open>RATE_LIMIT = 20\<close> calls per window of 1000 ms. Starting at the
  beginning of a window, twenty successive calls of \<open>getBlockVisionData\<close> to the rate-limited
  provider at clock readings inside the window all pass the rate check: none fails with the
  rate-limit error, each is handed to \<open>fetch\<close>, and each is counted, so the counter stands at
  twenty afterwards. Every further call inside the same window then fails at once with the
  rate-limit error (asking to wait one second), sends nothing and leaves the state as it
  is. Once 1000 ms have passed since the window started, a call passes again: the counter
  restarts at one in a new window and the request is sent. A call whose URL does not name
  the rate-limited provider never touches the limiter, is always sent and never fails with
  the rate-limit error.
\<close>

theorem rate_limit_fixed_window:
  assumes fresh: "requestCount (limiter c) = 0"
    and burst: "int (length ts) = RATE_LIMIT"
      "\<forall>t \<in> set ts. t - lastResetTime (limiter c) < RATE_LIMIT_WINDOW"
    and over: "\<forall>u \<in> set us. 0 \<le> u - lastResetTime (limiter c)
                 \<and> u - lastResetTime (limiter c) < RATE_LIMIT_WINDOW"
    and later: "RATE_LIMIT_WINDOW \<le> t2 - lastResetTime (limiter c)"
    and quick: "sublist ''quiknode'' (orUrl rpcUrl PROXY_URL)"
    and other: "\<not> sublist ''quiknode'' (orUrl otherUrl PROXY_URL)"
  shows "\<exists>rs c20. getBlockVisionDataCalls fetch PROXY_URL method params rpcUrl ts c = (rs, c20)
           \<and> length rs = nat RATE_LIMIT
           \<and> (\<forall>r \<in> set rs. \<forall>n. r \<noteq> Inl (RateLimitExceeded n))
           \<and> limiter c20 = (limiter c)\<lparr>requestCount := RATE_LIMIT\<rparr>
           \<and> sent c20 = sent c @ replicate (nat RATE_LIMIT) (orUrl rpcUrl PROXY_URL, method)
           \<and> getBlockVisionDataCalls fetch PROXY_URL method params rpcUrl us c20
               = (replicate (length us) (Inl (RateLimitExceeded 1)), c20)
           \<and> (\<exists>r. getBlockVisionData fetch PROXY_URL method params rpcUrl t2 c20
                     = (r, c20\<lparr>limiter := (limiter c)\<lparr>requestCount := 1, lastResetTime := t2\<rparr>,
                              sent := sent c20 @ [(orUrl rpcUrl PROXY_URL, method)]\<rparr>)
                  \<and> (\<forall>n. r \<noteq> Inl (RateLimitExceeded n)))
           \<and> (\<forall>now c'. limiter (snd (getBlockVisionData fetch PROXY_URL method params otherUrl now c'))
                     = limiter c'
                 \<and> sent (snd (getBlockVisionData fetch PROXY_URL method params otherUrl now c'))
                     = sent c' @ [(orUrl otherUrl PROXY_URL, method)]
                 \<and> (\<forall>n. fst (getBlockVisionData fetch PROXY_URL method params otherUrl now c')
                       \<noteq> Inl (RateLimitExceeded n)))"
proof -
  let ?url = "orUrl rpcUrl PROXY_URL"
  define c20 where "c20 = c\<lparr>limiter := (limiter c)\<lparr>requestCount := RATE_LIMIT\<rparr>,
                            sent := sent c @ replicate (nat RATE_LIMIT) (?url, method)\<rparr>"
  have len: "length ts = nat RATE_LIMIT"
    using burst(1) by simp
  have "requestCount (limiter c) + int (length ts) \<le> RATE_LIMIT"
    using fresh burst(1) by simp
  then obtain rs where rs:
      "getBlockVisionDataCalls fetch PROXY_URL method params rpcUrl ts c
         = (rs, c\<lparr>limiter := (limiter c)\<lparr>requestCount := requestCount (limiter c) + int (length ts)\<rparr>,
                  sent := sent c @ replicate (length ts) (?url, method)\<rparr>)"
      "length rs = length ts" "\<forall>r \<in> set rs. \<forall>n. r \<noteq> Inl (RateLimitExceeded n)"
    using calls_counted [OF quick _ burst(2), of fetch "method" params] by blast
  have a: "getBlockVisionDataCalls fetch PROXY_URL method params rpcUrl ts c = (rs, c20)"
    using rs(1) fresh burst(1) by (simp add: c20_def len)
  have lim: "limiter c20 = (limiter c)\<lparr>requestCount := RATE_LIMIT\<rparr>"
    and snt: "sent c20 = sent c @ replicate (nat RATE_LIMIT) (?url, method)"
    by (simp_all add: c20_def)
  have full: "RATE_LIMIT \<le> requestCount (limiter c20)"
    and start: "lastResetTime (limiter c20) = lastResetTime (limiter c)"
    by (simp_all add: lim)
  have b: "getBlockVisionDataCalls fetch PROXY_URL method params rpcUrl us c20
               = (replicate (length us) (Inl (RateLimitExceeded 1)), c20)"
    using over by (intro calls_rejected [OF quick full]) (simp add: start)
  have "\<exists>r. getBlockVisionData fetch PROXY_URL method params rpcUrl t2 c20
               = (r, c20\<lparr>limiter := (limiter c20)\<lparr>requestCount := 1, lastResetTime := t2\<rparr>,
                       sent := sent c20 @ [(?url, method)]\<rparr>)
             \<and> (\<forall>n. r \<noteq> Inl (RateLimitExceeded n))"
    using later by (intro call_after_window [OF quick]) (simp add: start)
  then have d: "\<exists>r. getBlockVisionData fetch PROXY_URL method params rpcUrl t2 c20
                     = (r, c20\<lparr>limiter := (limiter c)\<lparr>requestCount := 1, lastResetTime := t2\<rparr>,
                              sent := sent c20 @ [(?url, method)]\<rparr>)
                  \<and> (\<forall>n. r \<noteq> Inl (RateLimitExceeded n))"
    by (simp add: lim)
  have e: "limiter (snd (getBlockVisionData fetch PROXY_URL method params otherUrl now c'))
                     = limiter c'
                 \<and> sent (snd (getBlockVisionData fetch PROXY_URL method params otherUrl now c'))
                     = sent c' @ [(orUrl otherUrl PROXY_URL, method)]
                 \<and> (\<forall>n. fst (getBlockVisionData fetch PROXY_URL method params otherUrl now c')
                       \<noteq> Inl (RateLimitExceeded n))" for now c'
    using other by (simp add: getBlockVisionData_def Let_def split: single_reply.split option.split)
  have l: "length rs = nat RATE_LIMIT"
    using rs(2) len by simp
  show ?thesis
    using a l rs(3) lim snt b d e by blast
qed

theorem rate_limit_fixed_window_witness:
  "requestCount (limiter freshClient) = 0
   \<and> int (length burstTimes) = RATE_LIMIT
   \<and> list_all (\<lambda>t. t - lastResetTime (limiter freshClient) < RATE_LIMIT_WINDOW) burstTimes
   \<and> list_all (\<lambda>u. 0 \<le> u - lastResetTime (limiter freshClient)
                   \<and> u - lastResetTime (limiter freshClient) < RATE_LIMIT_WINDOW) [5990, 5999]
   \<and> sublist ''quiknode'' (orUrl (Some quickUrl) publicUrl)
   \<and> \<not> sublist ''quiknode'' (orUrl None publicUrl)
   \<and> getBlockVisionDataCalls heightFetch publicUrl ''eth_blockNumber'' () (Some quickUrl)
        burstTimes freshClient
       = (replicate 20 (Inr ''0x64''),
          \<lparr>limiter = \<lparr>requestCount = 20, lastResetTime = 5000\<rparr>,
           sent = replicate 20 (quickUrl, ''eth_blockNumber'')\<rparr>)
   \<and> getBlockVisionDataCalls heightFetch publicUrl ''eth_blockNumber'' () (Some quickUrl)
        [5990, 5999]
        \<lparr>limiter = \<lparr>requestCount = 20, lastResetTime = 5000\<rparr>,
         sent = replicate 20 (quickUrl, ''eth_blockNumber'')\<rparr>
       = ([Inl (RateLimitExceeded 1), Inl (RateLimitExceeded 1)],
          \<lparr>limiter = \<lparr>requestCount = 20, lastResetTime = 5000\<rparr>,
           sent = replicate 20 (quickUrl, ''eth_blockNumber'')\<rparr>)
   \<and> snd (getBlockVisionData heightFetch publicUrl ''eth_blockNumber'' () (Some quickUrl) 6000
        \<lparr>limiter = \<lparr>requestCount = 20, lastResetTime = 5000\<rparr>,
         sent = replicate 20 (quickUrl, ''eth_blockNumber'')\<rparr>)
       = \<lparr>limiter = \<lparr>requestCount = 1, lastResetTime = 6000\<rparr>,
          sent = replicate 20 (quickUrl, ''eth_blockNumber'') @ [(quickUrl, ''eth_blockNumber'')]\<rparr>
   \<and> sent (snd (getBlockVisionData heightFetch publicUrl ''eth_blockNumber'' () None 5999
        \<lparr>limiter = \<lparr>requestCount = 20, lastResetTime = 5000\<rparr>, sent = []\<rparr>))
       = [(publicUrl, ''eth_blockNumber'')]"
proof -
  let ?m = "''eth_blockNumber''"
  let ?c20 = "\<lparr>limiter = \<lparr>requestCount = 20, lastResetTime = 5000\<rparr>,
               sent = replicate 20 (quickUrl, ?m)\<rparr>"
  have h1: "requestCount (limiter freshClient) = 0"
    by (simp add: freshClient_def freshLimiter_def)
  have h2: "int (length burstTimes) = RATE_LIMIT"
    by (simp add: burstTimes_def RATE_LIMIT_def)
  have h3: "\<forall>t \<in> set burstTimes. t - lastResetTime (limiter freshClient) < RATE_LIMIT_WINDOW"
    by (auto simp add: burstTimes_def freshClient_def freshLimiter_def RATE_LIMIT_WINDOW_def)
  have h4: "\<forall>u \<in> set [5990, 5999]. 0 \<le> u - lastResetTime (limiter freshClient)
                 \<and> u - lastResetTime (limiter freshClient) < RATE_LIMIT_WINDOW"
    by (simp add: freshClient_def freshLimiter_def RATE_LIMIT_WINDOW_def)
  have h6: "RATE_LIMIT_WINDOW \<le> 6000 - lastResetTime (limiter freshClient)"
    by (simp add: freshClient_def freshLimiter_def RATE_LIMIT_WINDOW_def)
  have h7: "sublist ''quiknode'' (orUrl (Some quickUrl) publicUrl)"
    by (simp add: quickUrl_def sublist_code)
  have h8: "\<not> sublist ''quiknode'' (orUrl None publicUrl)"
    by (simp add: publicUrl_def sublist_code)
  have url: "orUrl (Some quickUrl) publicUrl = quickUrl" "orUrl None publicUrl = publicUrl"
    by (simp_all add: quickUrl_def publicUrl_def)
  have a: "getBlockVisionDataCalls heightFetch publicUrl ?m () (Some quickUrl) burstTimes freshClient
       = (replicate 20 (Inr ''0x64''), ?c20)"
    by code_simp
  obtain rs c20 where run:
      "getBlockVisionDataCalls heightFetch publicUrl ?m () (Some quickUrl) burstTimes freshClient
         = (rs, c20)"
      "getBlockVisionDataCalls heightFetch publicUrl ?m () (Some quickUrl) [5990, 5999] c20
         = (replicate (length [5990, 5999 :: int]) (Inl (RateLimitExceeded 1)), c20)"
      "\<exists>r. getBlockVisionData heightFetch publicUrl ?m () (Some quickUrl) 6000 c20
             = (r, c20\<lparr>limiter := (limiter freshClient)\<lparr>requestCount := 1, lastResetTime := 6000\<rparr>,
                      sent := sent c20 @ [(orUrl (Some quickUrl) publicUrl, ?m)]\<rparr>)"
      "\<forall>now c'. sent (snd (getBlockVisionData heightFetch publicUrl ?m () None now c'))
                     = sent c' @ [(orUrl None publicUrl, ?m)]"
    using rate_limit_fixed_window [OF h1 h2 h3 h4 h6 h7 h8, of heightFetch ?m "()"]
    by blast
  have c20: "c20 = ?c20"
    using run(1) a by simp
  have b: "getBlockVisionDataCalls heightFetch publicUrl ?m () (Some quickUrl) [5990, 5999] ?c20
       = ([Inl (RateLimitExceeded 1), Inl (RateLimitExceeded 1)], ?c20)"
    using run(2) unfolding c20 by simp
  have d: "snd (getBlockVisionData heightFetch publicUrl ?m () (Some quickUrl) 6000 ?c20)
       = \<lparr>limiter = \<lparr>requestCount = 1, lastResetTime = 6000\<rparr>,
          sent = replicate 20 (quickUrl, ?m) @ [(quickUrl, ?m)]\<rparr>"
    using run(3) unfolding c20 url by (auto simp add: freshClient_def freshLimiter_def)
  have e: "sent (snd (getBlockVisionData heightFetch publicUrl ?m () None 5999
        \<lparr>limiter = \<lparr>requestCount = 20, lastResetTime = 5000\<rparr>, sent = []\<rparr>))
       = [(publicUrl, ?m)]"
    using run(4) unfolding url by simp
  have h3': "list_all (\<lambda>t. t - lastResetTime (limiter freshClient) < RATE_LIMIT_WINDOW) burstTimes"
    using h3 by (simp add: list_all_iff)
  have h4': "list_all (\<lambda>u. 0 \<le> u - lastResetTime (limiter freshClient)
                   \<and> u - lastResetTime (limiter freshClient) < RATE_LIMIT_WINDOW) [5990, 5999]"
    using h4 by (simp add: list_all_iff)
  show ?thesis
    using h1 h2 h3' h4' h7 h8 a b d e by blast
qed

subsection \<open>Hexadecimal conversion\<close>

text \<open>
  C4. \<open>hexToNumber\<close> and \<open>hexToBigInt\<close> map an absent or empty input to zero, and
  \<open>hexToNumber\<close> yields a number (possibly \<open>NaN\<close>) on every string. \<open>hexToBigInt\<close> does not:
  on the string \<open>0x\<close>, which \<open>hexToNumber\<close> turns into \<open>NaN\<close>, the call \<open>BigInt("0x")\<close>
  throws a \<open>SyntaxError\<close>.
\<close>

theorem hexToBigInt_throws_on_bare_prefix:
  "hexToBigInt (Some ''0x'') = Inl (SyntaxError ''0x'')
   \<and> hexToNumber (Some ''0x'') = NaN
   \<and> hexToNumber None = Num 0 \<and> hexToNumber (Some []) = Num 0
   \<and> hexToBigInt None = Inr 0 \<and> hexToBigInt (Some []) = Inr 0"
  by (simp add: hexToBigInt_def StringToBigInt_def trimWhiteSpace_def isWhiteSpace_def
      hasHexPrefix_def allDigits_def hexToNumber_def parseInt_def)

subsection \<open>Merging into the events panel\<close>

lemma findIndex_bounds: "- 1 \<le> findIndex P xs \<and> findIndex P xs < int (length xs)"
  by (induction xs) (auto simp: Let_def)

lemma findIndex_none: "findIndex P xs < 0 \<longleftrightarrow> (\<forall>x \<in> set xs. \<not> P x)"
  using findIndex_bounds [of P] by (induction xs) (auto simp: Let_def)

lemma findIndex_append:
  "findIndex P (xs @ ys) =
     (if \<exists>x \<in> set xs. P x then findIndex P xs
      else if findIndex P ys < 0 then - 1 else int (length xs) + findIndex P ys)"
proof (induction xs)
  case Nil
  show ?case using findIndex_bounds [of P ys] by auto
next
  case (Cons x xs)
  show ?case
    using Cons.IH findIndex_bounds [of P ys] findIndex_none [of P xs]
    by (auto simp: Let_def)
qed

lemma uniqueEvents_Nil: "uniqueEvents [] = []"
  by (simp add: uniqueEvents_def)

lemma uniqueEvents_snoc:
  "uniqueEvents (xs @ [x]) =
     uniqueEvents xs @ (if ev_id x \<in> ev_id ` set xs then [] else [x])"
proof -
  define Q where "Q = (\<lambda>(ys :: event list) (p :: nat \<times> event).
      int (fst p) = findIndex (\<lambda>e. ev_id e = ev_id (snd p)) ys)"
  have u: "uniqueEvents ys = map snd (filter (Q ys) (enumerate 0 ys))" for ys
    by (simp add: uniqueEvents_def Q_def case_prod_unfold)
  have en: "enumerate 0 (xs @ [x]) = enumerate 0 xs @ [(length xs, x)]"
    by (simp add: enumerate_append_eq)
  have old: "filter (Q (xs @ [x])) (enumerate 0 xs) = filter (Q xs) (enumerate 0 xs)"
  proof (rule filter_cong [OF refl])
    fix p assume "p \<in> set (enumerate 0 xs)"
    then have "(fst p, snd p) \<in> set (zip [0..<length xs] xs)"
      by (simp add: enumerate_eq_zip)
    then have "snd p \<in> set xs"
      by (rule set_zip_rightD)
    then have "\<exists>e \<in> set xs. ev_id e = ev_id (snd p)"
      by blast
    then have "findIndex (\<lambda>e. ev_id e = ev_id (snd p)) (xs @ [x])
                 = findIndex (\<lambda>e. ev_id e = ev_id (snd p)) xs"
      by (simp only: findIndex_append if_True)
    then show "Q (xs @ [x]) p = Q xs p"
      by (simp only: Q_def)
  qed
  have new: "Q (xs @ [x]) (length xs, x) \<longleftrightarrow> ev_id x \<notin> ev_id ` set xs"
  proof (cases "ev_id x \<in> ev_id ` set xs")
    case True
    then have "\<exists>e \<in> set xs. ev_id e = ev_id x"
      by (metis imageE)
    then have "findIndex (\<lambda>e. ev_id e = ev_id x) (xs @ [x])
                 = findIndex (\<lambda>e. ev_id e = ev_id x) xs"
      by (simp only: findIndex_append if_True)
    moreover have "findIndex (\<lambda>e. ev_id e = ev_id x) xs < int (length xs)"
      using findIndex_bounds by blast
    ultimately have "\<not> Q (xs @ [x]) (length xs, x)"
      by (simp add: Q_def)
    then show ?thesis using True by simp
  next
    case False
    then have "\<not> (\<exists>e \<in> set xs. ev_id e = ev_id x)"
      by (metis image_eqI)
    then have "findIndex (\<lambda>e. ev_id e = ev_id x) (xs @ [x]) = int (length xs)"
      by (simp only: findIndex_append if_False) simp
    then have "Q (xs @ [x]) (length xs, x)"
      by (simp add: Q_def)
    then show ?thesis using False by simp
  qed
  have "uniqueEvents (xs @ [x])
      = map snd (filter (Q (xs @ [x])) (enumerate 0 xs))
        @ map snd (filter (Q (xs @ [x])) [(length xs, x)])"
    by (simp only: u en filter_append map_append)
  also have "\<dots> = uniqueEvents xs @ (if ev_id x \<in> ev_id ` set xs then [] else [x])"
    using new by (simp add: old u)
  finally show ?thesis .
qed

lemma uniqueEvents_ids: "ev_id ` set (uniqueEvents xs) = ev_id ` set xs"
  by (induction xs rule: rev_induct) (auto simp: uniqueEvents_Nil uniqueEvents_snoc)

lemma uniqueEvents_distinct: "distinct (map ev_id (uniqueEvents xs))"
proof (induction xs rule: rev_induct)
  case Nil
  show ?case by (simp add: uniqueEvents_Nil)
next
  case (snoc x xs)
  then show ?case
    using uniqueEvents_ids [of xs] by (auto simp: uniqueEvents_snoc)
qed

lemma uniqueEvents_append:
  "uniqueEvents (xs @ ys)
     = uniqueEvents xs @ filter (\<lambda>y. ev_id y \<notin> ev_id ` set xs) (uniqueEvents ys)"
proof (induction ys rule: rev_induct)
  case Nil
  show ?case by (simp add: uniqueEvents_Nil)
next
  case (snoc y ys)
  have "uniqueEvents (xs @ ys @ [y])
          = uniqueEvents (xs @ ys) @ (if ev_id y \<in> ev_id ` set (xs @ ys) then [] else [y])"
    using uniqueEvents_snoc [of "xs @ ys" y] by simp
  then show ?case
    using snoc.IH by (auto simp: uniqueEvents_snoc)
qed

lemma uniqueEvents_id: "distinct (map ev_id xs) \<Longrightarrow> uniqueEvents xs = xs"
  by (induction xs rule: rev_induct) (auto simp: uniqueEvents_Nil uniqueEvents_snoc)

lemma mergeNewEvents_shape:
  "mergeNewEvents n p
     = take 20 (uniqueEvents n)
       @ take (20 - length (uniqueEvents n))
           (filter (\<lambda>y. ev_id y \<notin> ev_id ` set n) (uniqueEvents p))"
  by (simp add: mergeNewEvents_def uniqueEvents_append)

lemma mergeNewEvents_distinct: "distinct (map ev_id (mergeNewEvents n p))"
  unfolding mergeNewEvents_def
  using uniqueEvents_distinct [of "n @ p"] by (metis take_map distinct_take)

lemma mergeNewEvents_idem: "mergeNewEvents n (mergeNewEvents n p) = mergeNewEvents n p"
proof -
  define U where "U = uniqueEvents n"
  define P where "P = (\<lambda>y :: event. ev_id y \<notin> ev_id ` set n)"
  define F where "F = filter P (uniqueEvents p)"
  define k where "k = 20 - length U"
  define M where "M = mergeNewEvents n p"
  have M: "M = take 20 U @ take k F"
    unfolding M_def U_def F_def P_def k_def by (rule mergeNewEvents_shape)
  have uM: "uniqueEvents M = M"
    unfolding M_def by (rule uniqueEvents_id [OF mergeNewEvents_distinct])
  have "set (take 20 U) \<subseteq> set U"
    by (rule set_take_subset)
  then have "\<forall>y \<in> set (take 20 U). \<not> P y"
    unfolding U_def P_def using uniqueEvents_ids [of n] by blast
  then have f1: "filter P (take 20 U) = []"
    by (rule filter_False)
  have "set (take k F) \<subseteq> set F"
    by (rule set_take_subset)
  then have "\<forall>y \<in> set (take k F). P y"
    unfolding F_def by auto
  then have f2: "filter P (take k F) = take k F"
    by (rule filter_True)
  have "filter P (uniqueEvents M) = take k F"
    unfolding uM by (subst M) (simp only: filter_append f1 f2 append_Nil)
  moreover have "mergeNewEvents n M
      = take 20 U @ take k (filter P (uniqueEvents M))"
    unfolding U_def P_def k_def by (rule mergeNewEvents_shape)
  ultimately have "mergeNewEvents n M = take 20 U @ take k (take k F)"
    by simp
  then show ?thesis
    using M unfolding M_def by simp
qed

subsection \<open>Merging into the high-gas panel\<close>

lemma update_absent: "map_of m k = None \<Longrightarrow> AList.update k v m = m @ [(k, v)]"
  by (induction m) (auto split: if_splits)

lemma update_entries: "set (AList.update k v m) \<subseteq> insert (k, v) (set m)"
  by (induction m) auto

lemma txMap0_keyed:
  fixes m :: "(string \<times> high_gas_tx) list"
  assumes "distinct (map fst m)" "\<forall>p \<in> set m. hg_hash (snd p) = fst p"
  shows "distinct (map fst (foldl (\<lambda>txMap tx. AList.update (hg_hash tx) tx txMap) m txs))
       \<and> (\<forall>p \<in> set (foldl (\<lambda>txMap tx. AList.update (hg_hash tx) tx txMap) m txs).
             hg_hash (snd p) = fst p)"
  using assms
proof (induction txs arbitrary: m)
  case Nil
  then show ?case by simp
next
  case (Cons tx txs)
  have "distinct (map fst (AList.update (hg_hash tx) tx m))"
    using Cons.prems(1) by (rule distinct_update)
  moreover have "\<forall>p \<in> set (AList.update (hg_hash tx) tx m). hg_hash (snd p) = fst p"
    using Cons.prems(2) update_entries [of "hg_hash tx" tx m] by auto
  ultimately show ?case
    using Cons.IH [of "AList.update (hg_hash tx) tx m"] by simp
qed

lemma txMap1_skip:
  fixes m :: "(string \<times> high_gas_tx) list"
  assumes "hg_hash ` set txs \<subseteq> fst ` set m"
  shows "foldl (\<lambda>txMap tx. if map_of txMap (hg_hash tx) = None
                             then AList.update (hg_hash tx) tx txMap else txMap) m txs = m"
  using assms by (induction txs) (auto simp: map_of_eq_None_iff)

lemma txMap1_append:
  fixes m :: "(string \<times> high_gas_tx) list"
  assumes "distinct (map hg_hash txs)" "hg_hash ` set txs \<inter> fst ` set m = {}"
  shows "foldl (\<lambda>txMap tx. if map_of txMap (hg_hash tx) = None
                             then AList.update (hg_hash tx) tx txMap else txMap) m txs
           = m @ map (\<lambda>tx. (hg_hash tx, tx)) txs"
  using assms
proof (induction txs arbitrary: m)
  case Nil
  then show ?case by simp
next
  case (Cons tx txs)
  have absent: "map_of m (hg_hash tx) = None"
    using Cons.prems(2) by (auto simp: map_of_eq_None_iff)
  have "hg_hash ` set txs \<inter> fst ` set (m @ [(hg_hash tx, tx)]) = {}"
    using Cons.prems by auto
  then have "foldl (\<lambda>txMap tx. if map_of txMap (hg_hash tx) = None
                             then AList.update (hg_hash tx) tx txMap else txMap)
               (m @ [(hg_hash tx, tx)]) txs
           = (m @ [(hg_hash tx, tx)]) @ map (\<lambda>tx. (hg_hash tx, tx)) txs"
    using Cons.prems(1) by (intro Cons.IH) simp
  then show ?case
    using absent by (simp add: update_absent)
qed

lemma txMap1_shape:
  fixes m :: "(string \<times> high_gas_tx) list"
  shows "\<exists>R. foldl (\<lambda>txMap tx. if map_of txMap (hg_hash tx) = None
                             then AList.update (hg_hash tx) tx txMap else txMap) m txs
               = m @ map (\<lambda>tx. (hg_hash tx, tx)) R
           \<and> distinct (map hg_hash R) \<and> hg_hash ` set R \<inter> fst ` set m = {}"
proof (induction txs rule: rev_induct)
  case Nil
  show ?case by (intro exI [of _ "[]"]) simp
next
  case (snoc tx txs)
  let ?step = "\<lambda>txMap tx. if map_of txMap (hg_hash tx) = None
                             then AList.update (hg_hash tx) tx txMap else txMap"
  from snoc obtain R where R: "foldl ?step m txs = m @ map (\<lambda>tx. (hg_hash tx, tx)) R"
      "distinct (map hg_hash R)" "hg_hash ` set R \<inter> fst ` set m = {}"
    by blast
  show ?case
  proof (cases "map_of (foldl ?step m txs) (hg_hash tx) = None")
    case True
    then have fresh: "hg_hash tx \<notin> fst ` set m" "hg_hash tx \<notin> hg_hash ` set R"
      unfolding R(1) by (auto simp: map_of_eq_None_iff image_Un image_image)
    have "foldl ?step m (txs @ [tx]) = m @ map (\<lambda>tx. (hg_hash tx, tx)) (R @ [tx])"
      using True by (simp add: update_absent R(1))
    moreover have "distinct (map hg_hash (R @ [tx]))"
      using R(2) fresh(2) by simp
    moreover have "hg_hash ` set (R @ [tx]) \<inter> fst ` set m = {}"
      using R(3) fresh(1) by auto
    ultimately show ?thesis by blast
  next
    case False
    then have "foldl ?step m (txs @ [tx]) = foldl ?step m txs"
      by (simp only: foldl_append foldl_Cons foldl_Nil if_False)
    then have "foldl ?step m (txs @ [tx]) = m @ map (\<lambda>tx. (hg_hash tx, tx)) R"
      using R(1) by (simp only:)
    then show ?thesis using R(2,3) by blast
  qed
qed

lemma mergeHighGasTxs_props:
  "mergeHighGasTxs n (mergeHighGasTxs n q) = mergeHighGasTxs n q
   \<and> distinct (map hg_hash (mergeHighGasTxs n q))"
proof -
  let ?step = "\<lambda>txMap tx. if map_of txMap (hg_hash tx) = None
                             then AList.update (hg_hash tx) tx txMap else txMap"
  define A where "A = foldl (\<lambda>txMap tx. AList.update (hg_hash tx) tx txMap) [] n"
  have A: "distinct (map fst A)" "\<forall>p \<in> set A. hg_hash (snd p) = fst p"
    unfolding A_def using txMap0_keyed [of "[]" n] by simp_all
  have merge: "mergeHighGasTxs n xs = take 12 (map snd (foldl ?step A xs))" for xs
    by (simp add: mergeHighGasTxs_def A_def)
  obtain R where R: "foldl ?step A q = A @ map (\<lambda>tx. (hg_hash tx, tx)) R"
      "distinct (map hg_hash R)" "hg_hash ` set R \<inter> fst ` set A = {}"
    using txMap1_shape [of A q] by blast
  define k where "k = 12 - length A"
  define M where "M = mergeHighGasTxs n q"
  have M: "M = take 12 (map snd A) @ take k R"
    unfolding M_def merge R(1) k_def by (simp add: comp_def)
  have "set (take 12 (map snd A)) \<subseteq> snd ` set A"
    using set_take_subset [of 12 "map snd A"] by simp
  then have "hg_hash ` set (take 12 (map snd A)) \<subseteq> fst ` set A"
    using A(2) by force
  then have s1: "foldl ?step A (take 12 (map snd A)) = A"
    by (rule txMap1_skip)
  have "distinct (map hg_hash (take k R))"
    using R(2) by (metis take_map distinct_take)
  moreover have "hg_hash ` set (take k R) \<inter> fst ` set A = {}"
    using R(3) set_take_subset [of k R] by blast
  ultimately have s2: "foldl ?step A (take k R) = A @ map (\<lambda>tx. (hg_hash tx, tx)) (take k R)"
    by (rule txMap1_append)
  have "foldl ?step A M = A @ map (\<lambda>tx. (hg_hash tx, tx)) (take k R)"
    unfolding M by (simp only: foldl_append s1 s2)
  then have "mergeHighGasTxs n M = take 12 (map snd A) @ take k (take k R)"
    unfolding merge k_def by (simp add: comp_def)
  then have idem: "mergeHighGasTxs n M = M"
    using M by simp
  have keys: "map hg_hash (map snd A) = map fst A"
    using A(2) by simp
  then have "distinct (map hg_hash (map snd A))"
    using A(1) by (simp only:)
  moreover have "hg_hash ` set (map snd A) = fst ` set A"
    using keys by (metis set_map)
  ultimately have "distinct (map hg_hash (map snd A @ R))"
    using R(2,3) by (simp only: map_append distinct_append set_map) blast
  moreover have "M = take 12 (map snd A @ R)"
    using M by (simp add: k_def)
  ultimately have "distinct (map hg_hash M)"
    by (metis take_map distinct_take)
  then show ?thesis
    using idem unfolding M_def by simp
qed

text \<open>
  C7. Merging the same fetched result into the cached panel state a second time changes
  nothing: the events updater and the high-gas updater are idempotent in their first
  argument. The merged events have pairwise distinct ids and are at most 20, starting with
  the new events; the merged high-gas transactions have pairwise distinct hashes and are
  at most 12.
\<close>

theorem merge_twice_is_merge_once:
  "checkForNewEvents n (checkForNewEvents n p) = checkForNewEvents n p
   \<and> mergeNewEvents n (mergeNewEvents n p) = mergeNewEvents n p
   \<and> distinct (map ev_id (mergeNewEvents n p))
   \<and> length (mergeNewEvents n p) \<le> 20
   \<and> prefix (take 20 (uniqueEvents n)) (mergeNewEvents n p)
   \<and> mergeHighGasTxs h (mergeHighGasTxs h q) = mergeHighGasTxs h q
   \<and> distinct (map hg_hash (mergeHighGasTxs h q))
   \<and> length (mergeHighGasTxs h q) \<le> 12"
proof -
  have "checkForNewEvents n (checkForNewEvents n p) = checkForNewEvents n p"
    by (simp add: checkForNewEvents_def mergeNewEvents_idem)
  moreover have "length (mergeNewEvents n p) \<le> 20"
    by (simp add: mergeNewEvents_def)
  moreover have "prefix (take 20 (uniqueEvents n)) (mergeNewEvents n p)"
    by (subst mergeNewEvents_shape) (rule prefixI, rule refl)
  moreover have "length (mergeHighGasTxs h q) \<le> 12"
    by (simp add: mergeHighGasTxs_def)
  ultimately show ?thesis
    using mergeNewEvents_idem [of n p] mergeNewEvents_distinct [of n p]
      mergeHighGasTxs_props [of h q]
    by blast
qed

subsection \<open>Ecosystem health\<close>

lemma floor_numeral_div: "\<lfloor>(numeral a :: rat) / numeral b\<rfloor> = numeral a div numeral b"
  using floor_divide_of_int_eq [of "numeral a" "numeral b", where ?'a = rat] by simp

lemma ceiling_numeral_div: "\<lceil>(numeral a :: rat) / numeral b\<rceil> = - ((- numeral a) div numeral b)"
  using ceiling_divide_eq_div [of "numeral a" "numeral b", where ?'a = rat] by simp

lemma ex_scan: "scanWindow (exChain txs) (exBlock 2 txs False)
                  = Inr (1, [exBlock 2 txs True, exBlock 1 txs True, exBlock 0 txs True])"
  by (simp add: scanWindow_def exChain_def exBlock_def secondsIn24h_def ceiling_numeral_div)


lemma toFixed2_int: "toFixed2 (rat_of_int k) = rat_of_int k"
proof -
  have half: "\<lfloor>rat_of_int j + 1 / 2\<rfloor> = j" for j
    by (rule floor_unique) simp_all
  have "\<lfloor>rat_of_int (k * 100) + 1 / 2\<rfloor> = k * 100"
    by (rule half)
  then have p: "\<lfloor>rat_of_int k * 100 + 1 / 2\<rfloor> = k * 100"
    by simp
  have "\<lfloor>rat_of_int (- k * 100) + 1 / 2\<rfloor> = - k * 100"
    by (rule half)
  then have n: "\<lfloor>- rat_of_int k * 100 + 1 / 2\<rfloor> = - k * 100"
    by simp
  show ?thesis
    unfolding toFixed2_def by (simp only: p n) simp
qed

lemma all_succeeded_rates:
  assumes "\<forall>tx \<in> set (windowTxs blocks). tx_status tx = Some 1"
  shows "successRateOf blocks = 100 \<and> failedTxRateOf blocks = 0"
proof -
  have s: "filter (\<lambda>tx. tx_status tx = Some 1) (windowTxs blocks) = windowTxs blocks"
    using assms by (simp add: filter_id_conv)
  have f: "filter (\<lambda>tx. tx_status tx = Some 0) (windowTxs blocks) = []"
    using assms by (simp add: filter_empty_conv)
  show ?thesis
    by (simp add: successRateOf_def failedTxRateOf_def Let_def s f)
qed

lemma failures_above_five_percent:
  assumes "5 * length (windowTxs blocks)
             < 100 * length (filter (\<lambda>tx. tx_status tx = Some 0) (windowTxs blocks))"
  shows "\<not> failedTxRateOf blocks < 5"
proof -
  let ?n = "length (windowTxs blocks)"
  let ?f = "length (filter (\<lambda>tx. tx_status tx = Some 0) (windowTxs blocks))"
  have pos: "0 < ?n"
    using assms by (cases "windowTxs blocks") auto
  have "rat_of_nat (5 * ?n) < rat_of_nat (100 * ?f)"
    using assms by (simp only: of_nat_less_iff)
  then have "5 * rat_of_nat ?n < rat_of_nat ?f * 100"
    by simp
  then have "5 < rat_of_nat ?f * 100 / rat_of_nat ?n"
    using pos by (simp add: pos_less_divide_eq)
  then show ?thesis
    using pos by (simp add: failedTxRateOf_def Let_def)
qed

lemma health_fields:
  "successRate (healthMetrics avg blocks) = toFixed2 (successRateOf blocks)"
  "failedTxRate (healthMetrics avg blocks) = toFixed2 (failedTxRateOf blocks)"
  "healthScore (healthMetrics avg blocks) = classify (successRateOf blocks) (failedTxRateOf blocks)"
  by (simp_all add: healthMetrics_def Let_def)

lemma rate_above_95:
  assumes "0 < n"
  shows "95 < rat_of_nat s / rat_of_nat n * 100 \<longleftrightarrow> 95 * n < 100 * s"
proof -
  have "95 < rat_of_nat s / rat_of_nat n * 100 \<longleftrightarrow> 95 * rat_of_nat n < rat_of_nat s * 100"
    using assms by (simp add: pos_less_divide_eq)
  also have "\<dots> \<longleftrightarrow> rat_of_nat (95 * n) < rat_of_nat (100 * s)"
    by (simp add: mult.commute)
  also have "\<dots> \<longleftrightarrow> 95 * n < 100 * s"
    by (simp only: of_nat_less_iff)
  finally show ?thesis .
qed

lemma rate_below_5:
  assumes "0 < n"
  shows "rat_of_nat f / rat_of_nat n * 100 < 5 \<longleftrightarrow> 100 * f < 5 * n"
proof -
  have "rat_of_nat f / rat_of_nat n * 100 < 5 \<longleftrightarrow> rat_of_nat f * 100 < 5 * rat_of_nat n"
    using assms by (simp add: pos_divide_less_eq)
  also have "\<dots> \<longleftrightarrow> rat_of_nat (100 * f) < rat_of_nat (5 * n)"
    by (simp add: mult.commute)
  also have "\<dots> \<longleftrightarrow> 100 * f < 5 * n"
    by (simp only: of_nat_less_iff)
  finally show ?thesis .
qed

lemma classify_healthy: "classify a b = ''Healthy'' \<longleftrightarrow> 95 < a \<and> b < 5"
  by (simp add: classify_def)

lemma classify_by_counts:
  "classify (successRateOf blocks) (failedTxRateOf blocks) = ''Healthy''
     \<longleftrightarrow> length (windowTxs blocks) = 0
         \<or> (95 * length (windowTxs blocks)
               < 100 * length (filter (\<lambda>tx. tx_status tx = Some 1) (windowTxs blocks))
             \<and> 100 * length (filter (\<lambda>tx. tx_status tx = Some 0) (windowTxs blocks))
               < 5 * length (windowTxs blocks))"
proof (cases "length (windowTxs blocks) = 0")
  case True
  then show ?thesis
    by (simp add: classify_def successRateOf_def failedTxRateOf_def)
next
  case False
  then have pos: "0 < length (windowTxs blocks)" by simp
  have sr: "successRateOf blocks
              = rat_of_nat (length (filter (\<lambda>tx. tx_status tx = Some 1) (windowTxs blocks)))
                / rat_of_nat (length (windowTxs blocks)) * 100"
    using pos by (simp add: successRateOf_def Let_def)
  have fr: "failedTxRateOf blocks
              = rat_of_nat (length (filter (\<lambda>tx. tx_status tx = Some 0) (windowTxs blocks)))
                / rat_of_nat (length (windowTxs blocks)) * 100"
    using pos by (simp add: failedTxRateOf_def Let_def)
  show ?thesis
    using False
    by (simp only: classify_healthy sr fr rate_above_95 [OF pos] rate_below_5 [OF pos]) simp
qed

text \<open>
  C2. Whenever \<open>getEcosystemHealthMetrics\<close> has its latest block and has scanned a window,
  let \<open>n\<close> be the number of transactions of the window (those under
  \<open>prefetchedTransactions\<close>), \<open>s\<close> the number of them with status 1 and \<open>f\<close> the number
  with status 0. The result counts \<open>n\<close> transactions. If every transaction has status 1,
  the returned \<open>successRate\<close> is 100 and the \<open>healthScore\<close> is Healthy. If more than 5% of the
  transactions have status 0, the \<open>healthScore\<close> is Needs Attention. The \<open>healthScore\<close> is
  Healthy exactly when the success rate \<open>100 s / n\<close> is above 95 and the failure rate
  \<open>100 f / n\<close> is below 5 (an empty window counting as rates 100 and 0), and Needs Attention
  otherwise. The rates of the rule are the ones computed from the counts, before they are
  rounded to two decimals for the result; they are exact rationals here.
\<close>

theorem ecosystem_health_classification:
  assumes "getBlock Latest False = Inr (Some latestBlock)"
    and "scanWindow getBlock latestBlock = Inr (avg, blocks)"
    and "txs = concat (map (\<lambda>block. case prefetchedTransactions block of
                                       None \<Rightarrow> [] | Some ts \<Rightarrow> ts) blocks)"
    and "n = length txs"
    and "s = length (filter (\<lambda>tx. tx_status tx = Some 1) txs)"
    and "f = length (filter (\<lambda>tx. tx_status tx = Some 0) txs)"
  shows "\<exists>m. getEcosystemHealthMetrics getBlock = Inr m
           \<and> txCount m = n
           \<and> ((\<forall>tx \<in> set txs. tx_status tx = Some 1)
                 \<longrightarrow> successRate m = 100 \<and> healthScore m = ''Healthy'')
           \<and> (5 * n < 100 * f \<longrightarrow> healthScore m = ''Needs Attention'')
           \<and> (healthScore m = ''Healthy''
                 \<longleftrightarrow> n = 0 \<or> (95 * n < 100 * s \<and> 100 * f < 5 * n))
           \<and> (healthScore m = ''Healthy'' \<or> healthScore m = ''Needs Attention'')"
proof -
  let ?m = "healthMetrics avg blocks"
  have w: "windowTxs blocks = txs"
    by (simp add: windowTxs_def assms(3))
  have r: "getEcosystemHealthMetrics getBlock = Inr ?m"
    by (simp add: getEcosystemHealthMetrics_def assms(1,2))
  have cnt: "txCount ?m = n"
    by (simp add: healthMetrics_def Let_def w assms(4))
  have a: "successRate ?m = 100 \<and> healthScore ?m = ''Healthy''"
    if "\<forall>tx \<in> set txs. tx_status tx = Some 1"
    using all_succeeded_rates [of blocks] that toFixed2_int [of 100]
    by (simp add: health_fields classify_def w)
  have b: "healthScore ?m = ''Needs Attention''" if "5 * n < 100 * f"
    using failures_above_five_percent [of blocks] that
    by (simp add: health_fields classify_def w assms(4,6))
  have d: "healthScore ?m = ''Healthy'' \<longleftrightarrow> n = 0 \<or> (95 * n < 100 * s \<and> 100 * f < 5 * n)"
    using classify_by_counts [of blocks] by (simp add: health_fields w assms(4,5,6))
  have e: "healthScore ?m = ''Healthy'' \<or> healthScore ?m = ''Needs Attention''"
    by (simp add: health_fields classify_def)
  show ?thesis
    using r cnt a b d e by blast
qed

theorem ecosystem_health_classification_witness:
  "exChain [exTx (Some 1) ''0x01''] Latest False = Inr (Some (exBlock 2 [exTx (Some 1) ''0x01''] False))
   \<and> (\<exists>m. getEcosystemHealthMetrics (exChain [exTx (Some 1) ''0x01'']) = Inr m
          \<and> txCount m = 3 \<and> successRate m = 100 \<and> healthScore m = ''Healthy'')
   \<and> (\<exists>m. getEcosystemHealthMetrics (exChain [exTx (Some 1) ''0x01'', exTx (Some 0) ''0x02'']) = Inr m
          \<and> txCount m = 6 \<and> healthScore m = ''Needs Attention'')
   \<and> (\<exists>m. getEcosystemHealthMetrics (exChain [exTx None ''0x03'']) = Inr m
          \<and> txCount m = 3 \<and> healthScore m = ''Needs Attention'')"
proof -
  define ok where "ok = exTx (Some 1) ''0x01''"
  define bad where "bad = exTx (Some 0) ''0x02''"
  define unknown where "unknown = exTx None ''0x03''"
  have st: "tx_status ok = Some 1" "tx_status bad = Some 0" "tx_status unknown = None"
    by (simp_all add: ok_def bad_def unknown_def exTx_def)
  have h1: "exChain txs Latest False = Inr (Some (exBlock 2 txs False))" for txs
    by (simp add: exChain_def)
  have window: "(t # ts) @ (t # ts) @ (t # ts)
                  = concat (map (\<lambda>block. case prefetchedTransactions block of
                                        None \<Rightarrow> [] | Some ts \<Rightarrow> ts)
                      [exBlock 2 (t # ts) True, exBlock 1 (t # ts) True, exBlock 0 (t # ts) True])"
    for t ts
    by (simp add: exBlock_def)
  have "3 = length ([ok] @ [ok] @ [ok])"
    and "3 = length (filter (\<lambda>tx. tx_status tx = Some 1) ([ok] @ [ok] @ [ok]))"
    and "0 = length (filter (\<lambda>tx. tx_status tx = Some 0) ([ok] @ [ok] @ [ok]))"
    by (simp_all add: st)
  from ecosystem_health_classification [OF h1 ex_scan window this]
  have "\<exists>m. getEcosystemHealthMetrics (exChain [ok]) = Inr m
          \<and> txCount m = 3 \<and> successRate m = 100 \<and> healthScore m = ''Healthy''"
    by (auto simp add: st)
  then have a: "\<exists>m. getEcosystemHealthMetrics (exChain [exTx (Some 1) ''0x01'']) = Inr m
          \<and> txCount m = 3 \<and> successRate m = 100 \<and> healthScore m = ''Healthy''"
    by (simp only: ok_def)
  have "6 = length ([ok, bad] @ [ok, bad] @ [ok, bad])"
    and "3 = length (filter (\<lambda>tx. tx_status tx = Some 1) ([ok, bad] @ [ok, bad] @ [ok, bad]))"
    and "3 = length (filter (\<lambda>tx. tx_status tx = Some 0) ([ok, bad] @ [ok, bad] @ [ok, bad]))"
    by (simp_all add: st)
  from ecosystem_health_classification [OF h1 ex_scan window this]
  have "\<exists>m. getEcosystemHealthMetrics (exChain [ok, bad]) = Inr m
          \<and> txCount m = 6 \<and> healthScore m = ''Needs Attention''"
    by auto
  then have b: "\<exists>m. getEcosystemHealthMetrics (exChain [exTx (Some 1) ''0x01'', exTx (Some 0) ''0x02'']) = Inr m
          \<and> txCount m = 6 \<and> healthScore m = ''Needs Attention''"
    by (simp only: ok_def bad_def)
  have "3 = length ([unknown] @ [unknown] @ [unknown])"
    and "0 = length (filter (\<lambda>tx. tx_status tx = Some 1) ([unknown] @ [unknown] @ [unknown]))"
    and "0 = length (filter (\<lambda>tx. tx_status tx = Some 0) ([unknown] @ [unknown] @ [unknown]))"
    by (simp_all add: st)
  from ecosystem_health_classification [OF h1 ex_scan window this]
  have "\<exists>m. getEcosystemHealthMetrics (exChain [unknown]) = Inr m
          \<and> txCount m = 3 \<and> healthScore m = ''Needs Attention''"
    by auto
  then have c: "\<exists>m. getEcosystemHealthMetrics (exChain [exTx None ''0x03'']) = Inr m
          \<and> txCount m = 3 \<and> healthScore m = ''Needs Attention''"
    by (simp only: unknown_def)
  show ?thesis
    using h1 [of "[exTx (Some 1) ''0x01'']"] a b c by blast
qed

lemma empty_window_rates:
  assumes "windowTxs blocks = []"
  shows "successRateOf blocks = 100 \<and> failedTxRateOf blocks = 0"
  using assms by (simp add: successRateOf_def failedTxRateOf_def)

lemma recent_fields:
  "successRate (recentMetrics getReceipt nums blocks)
     = toFixed2 (if sum_list (map (\<lambda>block. length (transactions block)) blocks) > 0
                 then rat_of_nat (length (filter (\<lambda>status. status = Some ReceiptSuccess)
                        (map (receiptResult getReceipt) (allTxHashesOf blocks))))
                      / rat_of_nat (sum_list (map (\<lambda>block. length (transactions block)) blocks)) * 100
                 else 0)"
  "healthScore (recentMetrics getReceipt nums blocks)
     = classify
        (if sum_list (map (\<lambda>block. length (transactions block)) blocks) > 0
                 then rat_of_nat (length (filter (\<lambda>status. status = Some ReceiptSuccess)
                        (map (receiptResult getReceipt) (allTxHashesOf blocks))))
                      / rat_of_nat (sum_list (map (\<lambda>block. length (transactions block)) blocks)) * 100
                 else 0)
        (if sum_list (map (\<lambda>block. length (transactions block)) blocks) > 0
                 then rat_of_nat (length (filter (\<lambda>status. status = Some ReceiptFail)
                        (map (receiptResult getReceipt) (allTxHashesOf blocks))))
                      / rat_of_nat (sum_list (map (\<lambda>block. length (transactions block)) blocks)) * 100
                 else 0)"
  "partial (recentMetrics getReceipt nums blocks) = (length (failedBlocksOf nums blocks) > 0)"
  "failedBlocks (recentMetrics getReceipt nums blocks) = failedBlocksOf nums blocks"
  "totalTxCount (recentMetrics getReceipt nums blocks)
     = sum_list (map (\<lambda>block. length (transactions block)) blocks)"
  by (simp_all add: recentMetrics_def Let_def)

text \<open>
  C8. On a window without transactions the two variants disagree: the fail-closed
  \<open>getEcosystemHealthMetrics\<close> returns success rate 100, failure rate 0 and Healthy, while the
  fail-open \<open>getRecentEcosystemHealthMetrics\<close>, when the batch brought back at least one block
  and none of the blocks has a transaction, returns success rate 0 and Needs Attention.
\<close>

theorem empty_window_classified_oppositely:
  assumes "getBlock Latest False = Inr (Some latestBlock)"
    and "scanWindow getBlock latestBlock = Inr (avg, blocks)"
    and "windowTxs blocks = []"
    and "batchBlockVisionData fetch PROXY_URL
           (recentBlockRequests (recentBlockNumbers (hexToNumber height) n))
           (Some QUICKNODE_RPC_URL) = Inr results"
    and "filterBoolean results \<noteq> []"
    and "\<forall>b \<in> set (filterBoolean results). transactions b = []"
  shows "\<exists>m r. getEcosystemHealthMetrics getBlock = Inr m
           \<and> successRate m = 100 \<and> failedTxRate m = 0 \<and> healthScore m = ''Healthy''
           \<and> getRecentEcosystemHealthMetrics (Inr height) fetch getReceipt PROXY_URL
                QUICKNODE_RPC_URL n = Inr (Some r)
           \<and> totalTxCount r = 0
           \<and> successRate r = 0 \<and> healthScore r = ''Needs Attention''"
proof -
  let ?m = "healthMetrics avg blocks"
  let ?nums = "recentBlockNumbers (hexToNumber height) n"
  let ?r = "recentMetrics getReceipt ?nums (filterBoolean results)"
  have m: "getEcosystemHealthMetrics getBlock = Inr ?m"
    by (simp add: getEcosystemHealthMetrics_def assms(1,2))
  have closed: "successRate ?m = 100 \<and> failedTxRate ?m = 0 \<and> healthScore ?m = ''Healthy''"
    using empty_window_rates [OF assms(3)] toFixed2_int [of 100] toFixed2_int [of 0]
    by (simp add: health_fields classify_def)
  have r: "getRecentEcosystemHealthMetrics (Inr height) fetch getReceipt PROXY_URL
                QUICKNODE_RPC_URL n = Inr (Some ?r)"
    using assms(4,5) by (simp add: getRecentEcosystemHealthMetrics_def Let_def)
  have zero: "sum_list (map (\<lambda>block. length (transactions block)) (filterBoolean results)) = 0"
    using assms(6) by (simp add: sum_list_eq_0_iff)
  have "open": "totalTxCount ?r = 0 \<and> successRate ?r = 0 \<and> healthScore ?r = ''Needs Attention''"
    using toFixed2_int [of 0] by (simp add: recent_fields zero classify_def)
  show ?thesis
    using m closed r "open" by blast
qed

theorem empty_window_classified_oppositely_witness:
  "exChain [] Latest False = Inr (Some (exBlock 2 [] False))
   \<and> windowTxs [exBlock 2 [] True, exBlock 1 [] True, exBlock 0 [] True] = []
   \<and> (\<exists>m r. getEcosystemHealthMetrics (exChain []) = Inr m
          \<and> successRate m = 100 \<and> failedTxRate m = 0 \<and> healthScore m = ''Healthy''
          \<and> getRecentEcosystemHealthMetrics (Inr (Some ''0x2'')) quietFetch noReceipts publicUrl
               quickUrl 2 = Inr (Some r)
          \<and> totalTxCount r = 0
          \<and> successRate r = 0 \<and> healthScore r = ''Needs Attention'')"
proof -
  let ?results = "[Some (Some (exBlock 2 [] True)), Some (Some (exBlock 1 [] True))]"
  have h1: "exChain [] Latest False = Inr (Some (exBlock 2 [] False))"
    by (simp add: exChain_def)
  have h3: "windowTxs [exBlock 2 [] True, exBlock 1 [] True, exBlock 0 [] True] = []"
    by (simp add: windowTxs_def exBlock_def)
  have h4: "batchBlockVisionData quietFetch publicUrl
              (recentBlockRequests (recentBlockNumbers (hexToNumber (Some ''0x2'')) 2))
              (Some quickUrl) = Inr ?results"
    by (simp add: batchBlockVisionData_def quietFetch_def subResult_def)
  have h5: "filterBoolean ?results \<noteq> []"
    by (simp add: filterBoolean_def)
  have h6: "\<forall>b \<in> set (filterBoolean ?results). transactions b = []"
    by (simp add: filterBoolean_def exBlock_def)
  show ?thesis
    using empty_window_classified_oppositely [OF h1 ex_scan h3 h4 h5 h6, of noReceipts] h1 h3
    by blast
qed

lemma failedBlocksOf_drop: "failedBlocksOf nums blocks = drop (length blocks) nums"
proof -
  have "filter (\<lambda>p. \<not> fst p < k) (zip [0..<length nums] nums)
          = drop k (zip [0..<length nums] nums)" for k
  proof (induction nums arbitrary: k rule: rev_induct)
    case Nil
    show ?case by simp
  next
    case (snoc x xs)
    have z: "zip [0..<length (xs @ [x])] (xs @ [x]) = zip [0..<length xs] xs @ [(length xs, x)]"
      by simp
    show ?case
      unfolding z using snoc.IH [of k] by (auto simp: not_less)
  qed
  then show ?thesis
    by (simp add: failedBlocksOf_def enumerate_eq_zip case_prod_unfold drop_map drop_zip)
qed

text \<open>
  C5. The fail-open variant sets \<open>partial\<close> when fewer blocks came back than were asked for,
  but \<open>failedBlocks\<close> is computed by indexing the list of blocks after the failed fetches
  were filtered out of it: it holds the last requested numbers, as many as fetches failed,
  not the numbers whose fetch failed. Here blocks 100, 99 and 98 are requested and the
  fetch of block 100 fails: the result is partial and reports block 98 as failed.
\<close>

theorem failedBlocks_are_the_trailing_numbers:
  "recentBlockNumbers (hexToNumber (Some ''0x64'')) 3 = [Num 100, Num 99, Num 98]
   \<and> batchBlockVisionData lossyFetch publicUrl
        (recentBlockRequests [Num 100, Num 99, Num 98]) (Some quickUrl)
       = Inr [None, Some (Some (exBlock 99 [] True)), Some (Some (exBlock 98 [] True))]
   \<and> (\<exists>r. getRecentEcosystemHealthMetrics (Inr (Some ''0x64'')) lossyFetch noReceipts publicUrl
             quickUrl 3 = Inr (Some r)
          \<and> partial r \<and> failedBlocks r = [Num 98])"
proof -
  let ?results = "[None, Some (Some (exBlock 99 [] True)), Some (Some (exBlock 98 [] True))]"
  have height: "hexToNumber (Some ''0x64'') = Num 100"
    by (simp add: hexToNumber_def parseInt_def isWhiteSpace_def hasHexPrefix_def isDigitOf_def
        digitVal_def digitsValue_def)
  have nums: "recentBlockNumbers (Num 100) 3 = [Num 100, Num 99, Num 98]"
    by (simp add: recentBlockNumbers_def upt_rec)
  have batch: "batchBlockVisionData lossyFetch publicUrl reqs (Some quickUrl) = Inr ?results" for reqs
    by (simp add: batchBlockVisionData_def lossyFetch_def subResult_def)
  have blocks: "filterBoolean ?results = [exBlock 99 [] True, exBlock 98 [] True]"
    by (simp add: filterBoolean_def)
  let ?r = "recentMetrics noReceipts [Num 100, Num 99, Num 98] [exBlock 99 [] True, exBlock 98 [] True]"
  have r: "getRecentEcosystemHealthMetrics (Inr (Some ''0x64'')) lossyFetch noReceipts publicUrl
             quickUrl 3 = Inr (Some ?r)"
    by (simp add: getRecentEcosystemHealthMetrics_def Let_def height nums batch blocks)
  have "failedBlocksOf [Num 100, Num 99, Num 98] [exBlock 99 [] True, exBlock 98 [] True] = [Num 98]"
    by (simp add: failedBlocksOf_drop)
  then have "partial ?r \<and> failedBlocks ?r = [Num 98]"
    by (simp add: recent_fields)
  then show ?thesis
    using height nums batch r by auto
qed

subsection \<open>Gas usage history\<close>

lemma gasStep_lookup:
  assumes "tsTruthy (rb_timestamp b)" "truthy (rb_gasUsed b)"
    and "blockTimestampOf b \<noteq> NaN" "blockGasOf b \<noteq> NaN"
  shows "orZero (gasStep M b (Num k))
           = orZero (M (Num k))
             + (if minuteKeyOf (blockTimestampOf b) = Num k then orZero (Some (blockGasOf b)) else 0)"
proof -
  obtain t g where tg: "blockTimestampOf b = Num t" "blockGasOf b = Num g"
    using assms(3,4) by (metis jsnum.exhaust)
  show ?thesis
    using assms(1,2) by (simp add: gasStep_def Let_def tg minuteKeyOf_def orZero_def jsAdd_def)
qed

lemma gas_fold_lookup:
  assumes "\<forall>b \<in> set blocks. tsTruthy (rb_timestamp b) \<and> truthy (rb_gasUsed b)
             \<and> blockTimestampOf b \<noteq> NaN \<and> blockGasOf b \<noteq> NaN"
  shows "orZero (foldl gasStep M blocks (Num k))
           = orZero (M (Num k))
             + sum_list (map (\<lambda>b. orZero (Some (blockGasOf b)))
                 (filter (\<lambda>b. minuteKeyOf (blockTimestampOf b) = Num k) blocks))"
  using assms
proof (induction blocks arbitrary: M)
  case Nil
  show ?case by simp
next
  case (Cons b blocks)
  have "orZero (foldl gasStep (gasStep M b) blocks (Num k))
          = orZero (gasStep M b (Num k))
            + sum_list (map (\<lambda>b. orZero (Some (blockGasOf b)))
                 (filter (\<lambda>b. minuteKeyOf (blockTimestampOf b) = Num k) blocks))"
    using Cons.prems by (intro Cons.IH) simp
  moreover have "orZero (gasStep M b (Num k))
           = orZero (M (Num k))
             + (if minuteKeyOf (blockTimestampOf b) = Num k then orZero (Some (blockGasOf b)) else 0)"
    using Cons.prems by (intro gasStep_lookup) simp_all
  ultimately show ?case by simp
qed

lemma finalDataOf_length: "length (finalDataOf timeLabel M now minutes) = minutes"
  by (simp add: finalDataOf_def)

lemma finalDataOf_nth:
  assumes "j < minutes"
  shows "finalDataOf timeLabel M now minutes ! j
           = \<lparr>gp_time = timeLabel (now - int (minutes - 1 - j) * 60),
              gp_gasUsed = orZero (M (Num ((now - int (minutes - 1 - j) * 60) div 60)))\<rparr>"
proof -
  have "minutes - Suc j < minutes" using assms by simp
  then show ?thesis
    using assms by (simp add: finalDataOf_def rev_nth Let_def minuteKeyOf_def)
qed

text \<open>
  C6. When the latest block, the block a hundred behind and the batch are all fetched
  without an error, and every fetched block carries a usable timestamp and \<open>gasUsed\<close>
  (truthy, parsed by \<open>parseInt\<close> to a number), \<open>getGasUsageHistory(m)\<close> returns exactly \<open>m\<close>
  entries, oldest first: entry \<open>j\<close> is labelled with the latest block's timestamp minus
  \<open>m - 1 - j\<close> minutes, and its \<open>gasUsed\<close> is the sum of the \<open>gasUsed\<close> of the fetched blocks
  whose timestamp lies in the same minute (zero when there is none). When the latest block
  is missing or any of the three fetches throws, the result is the empty list.
\<close>

theorem gas_history_by_minute:
  "(getBlock Latest False = Inr (Some latestBlock)
     \<and> getBlock (BlockNumber (number latestBlock - 100)) False = Inr olderBlock
     \<and> batchBlockVisionData fetch PROXY_URL
          (gasBlockRequests (blockNumbersToFetchOf (number latestBlock)
             (blocksToFetchOf latestBlock olderBlock minutes))) None = Inr results
     \<and> (\<forall>b \<in> set (filterBoolean results). tsTruthy (rb_timestamp b) \<and> truthy (rb_gasUsed b)
            \<and> blockTimestampOf b \<noteq> NaN \<and> blockGasOf b \<noteq> NaN)
    \<longrightarrow> length (getGasUsageHistory getBlock fetch timeLabel PROXY_URL minutes) = minutes
      \<and> (\<forall>j < minutes.
            gp_time (getGasUsageHistory getBlock fetch timeLabel PROXY_URL minutes ! j)
              = timeLabel (timestamp latestBlock - int (minutes - 1 - j) * 60)
          \<and> gp_gasUsed (getGasUsageHistory getBlock fetch timeLabel PROXY_URL minutes ! j)
              = sum_list (map (\<lambda>b. orZero (Some (blockGasOf b)))
                  (filter (\<lambda>b. minuteKeyOf (blockTimestampOf b)
                                 = Num ((timestamp latestBlock - int (minutes - 1 - j) * 60) div 60))
                     (filterBoolean results)))))
   \<and> ((\<exists>e. getBlock Latest False = Inl e) \<or> getBlock Latest False = Inr None
        \<or> (\<exists>latestBlock e. getBlock Latest False = Inr (Some latestBlock)
              \<and> getBlock (BlockNumber (number latestBlock - 100)) False = Inl e)
        \<or> (\<exists>latestBlock olderBlock e. getBlock Latest False = Inr (Some latestBlock)
              \<and> getBlock (BlockNumber (number latestBlock - 100)) False = Inr olderBlock
              \<and> batchBlockVisionData fetch PROXY_URL
                   (gasBlockRequests (blockNumbersToFetchOf (number latestBlock)
                      (blocksToFetchOf latestBlock olderBlock minutes))) None = Inl e)
    \<longrightarrow> getGasUsageHistory getBlock fetch timeLabel PROXY_URL minutes = [])"
proof (intro conjI impI)
  assume h: "getBlock Latest False = Inr (Some latestBlock)
     \<and> getBlock (BlockNumber (number latestBlock - 100)) False = Inr olderBlock
     \<and> batchBlockVisionData fetch PROXY_URL
          (gasBlockRequests (blockNumbersToFetchOf (number latestBlock)
             (blocksToFetchOf latestBlock olderBlock minutes))) None = Inr results
     \<and> (\<forall>b \<in> set (filterBoolean results). tsTruthy (rb_timestamp b) \<and> truthy (rb_gasUsed b)
            \<and> blockTimestampOf b \<noteq> NaN \<and> blockGasOf b \<noteq> NaN)"
  let ?M = "foldl gasStep Map.empty (filterBoolean results)"
  have out: "getGasUsageHistory getBlock fetch timeLabel PROXY_URL minutes
               = finalDataOf timeLabel ?M (timestamp latestBlock) minutes"
    using h by (simp add: getGasUsageHistory_def Let_def)
  show "length (getGasUsageHistory getBlock fetch timeLabel PROXY_URL minutes) = minutes"
    by (simp only: out finalDataOf_length)
  have look: "orZero (?M (Num k))
       = sum_list (map (\<lambda>b. orZero (Some (blockGasOf b)))
                 (filter (\<lambda>b. minuteKeyOf (blockTimestampOf b) = Num k) (filterBoolean results)))" for k
    using gas_fold_lookup [of "filterBoolean results" Map.empty k] h
    by (simp add: orZero_def)
  show "\<forall>j < minutes.
            gp_time (getGasUsageHistory getBlock fetch timeLabel PROXY_URL minutes ! j)
              = timeLabel (timestamp latestBlock - int (minutes - 1 - j) * 60)
          \<and> gp_gasUsed (getGasUsageHistory getBlock fetch timeLabel PROXY_URL minutes ! j)
              = sum_list (map (\<lambda>b. orZero (Some (blockGasOf b)))
                  (filter (\<lambda>b. minuteKeyOf (blockTimestampOf b)
                                 = Num ((timestamp latestBlock - int (minutes - 1 - j) * 60) div 60))
                     (filterBoolean results)))"
    by (simp add: out finalDataOf_nth look)
next
  assume "(\<exists>e. getBlock Latest False = Inl e) \<or> getBlock Latest False = Inr None
        \<or> (\<exists>latestBlock e. getBlock Latest False = Inr (Some latestBlock)
              \<and> getBlock (BlockNumber (number latestBlock - 100)) False = Inl e)
        \<or> (\<exists>latestBlock olderBlock e. getBlock Latest False = Inr (Some latestBlock)
              \<and> getBlock (BlockNumber (number latestBlock - 100)) False = Inr olderBlock
              \<and> batchBlockVisionData fetch PROXY_URL
                   (gasBlockRequests (blockNumbersToFetchOf (number latestBlock)
                      (blocksToFetchOf latestBlock olderBlock minutes))) None = Inl e)"
  then show "getGasUsageHistory getBlock fetch timeLabel PROXY_URL minutes = []"
    by (auto simp add: getGasUsageHistory_def Let_def)
qed


lemmas parse_defs = parseInt_def isWhiteSpace_def hasHexPrefix_def isDigitOf_def
        digitVal_def digitsValue_def

theorem gas_history_by_minute_witness:
  "exChain [] Latest False = Inr (Some (exBlock 2 [] False))
   \<and> exChain [] (BlockNumber (number (exBlock 2 [] False) - 100)) False = Inr None
   \<and> list_all (\<lambda>b. tsTruthy (rb_timestamp b) \<and> truthy (rb_gasUsed b)
            \<and> blockTimestampOf b \<noteq> NaN \<and> blockGasOf b \<noteq> NaN) gasBlocks
   \<and> length (getGasUsageHistory (exChain []) gasFetch secondsLabel publicUrl 2) = 2
   \<and> gp_gasUsed (getGasUsageHistory (exChain []) gasFetch secondsLabel publicUrl 2 ! 0) = 1
   \<and> gp_gasUsed (getGasUsageHistory (exChain []) gasFetch secondsLabel publicUrl 2 ! 1) = 42000
   \<and> gp_time (getGasUsageHistory (exChain []) gasFetch secondsLabel publicUrl 2 ! 1) = ''1004''
   \<and> getGasUsageHistory downFetch gasFetch secondsLabel publicUrl 2 = []"
proof -
  have h1: "exChain [] Latest False = Inr (Some (exBlock 2 [] False))"
    by (simp add: exChain_def)
  have h2: "exChain [] (BlockNumber (number (exBlock 2 [] False) - 100)) False = Inr None"
    by (simp add: exChain_def exBlock_def)
  have h3: "batchBlockVisionData gasFetch publicUrl reqs None = Inr (map Some (map Some gasBlocks))" for reqs
    by (simp add: batchBlockVisionData_def gasFetch_def gasBlocks_def subResult_def)
  have blocks: "filterBoolean (map Some (map Some gasBlocks)) = gasBlocks"
      "filterBoolean (map (Some \<circ> Some) gasBlocks) = gasBlocks"
    by (simp_all add: filterBoolean_def gasBlocks_def)
  have parsed: "blockTimestampOf gasBlockA = Num 1004" "blockTimestampOf gasBlockB = Num 1000"
      "blockTimestampOf gasBlockC = Num 944"
      "blockGasOf gasBlockA = Num 21000" "blockGasOf gasBlockB = Num 21000"
      "blockGasOf gasBlockC = Num 1"
    by (simp_all add: gasBlockA_def gasBlockB_def gasBlockC_def blockTimestampOf_def
        blockGasOf_def parse_defs)
  have truthy: "tsTruthy (rb_timestamp gasBlockA) \<and> truthy (rb_gasUsed gasBlockA)"
      "tsTruthy (rb_timestamp gasBlockB) \<and> truthy (rb_gasUsed gasBlockB)"
      "tsTruthy (rb_timestamp gasBlockC) \<and> truthy (rb_gasUsed gasBlockC)"
    by (simp_all add: gasBlockA_def gasBlockB_def gasBlockC_def tsTruthy_def truthy_def)
  have h4l: "list_all (\<lambda>b. tsTruthy (rb_timestamp b) \<and> truthy (rb_gasUsed b)
            \<and> blockTimestampOf b \<noteq> NaN \<and> blockGasOf b \<noteq> NaN) gasBlocks"
    by (simp add: gasBlocks_def parsed truthy)
  then have h4: "\<forall>b \<in> set (filterBoolean (map Some (map Some gasBlocks))).
            tsTruthy (rb_timestamp b) \<and> truthy (rb_gasUsed b)
            \<and> blockTimestampOf b \<noteq> NaN \<and> blockGasOf b \<noteq> NaN"
    by (simp only: blocks(1) list_all_iff)
  note T = gas_history_by_minute [of "exChain []" "exBlock 2 [] False" None gasFetch publicUrl 2
      "map Some (map Some gasBlocks)" secondsLabel, THEN conjunct1, rule_format,
      OF conjI [OF h1 conjI [OF h2 conjI [OF h3 h4]]]]
  have len: "length (getGasUsageHistory (exChain []) gasFetch secondsLabel publicUrl 2) = 2"
    using T by blast
  have ts: "timestamp (exBlock 2 [] False) = 1004"
    by (simp add: exBlock_def)
  have sums: "sum_list (map (\<lambda>b. orZero (Some (blockGasOf b)))
                  (filter (\<lambda>b. minuteKeyOf (blockTimestampOf b) = Num 16) gasBlocks)) = 42000"
     "sum_list (map (\<lambda>b. orZero (Some (blockGasOf b)))
                  (filter (\<lambda>b. minuteKeyOf (blockTimestampOf b) = Num 15) gasBlocks)) = 1"
    by (simp_all add: gasBlocks_def parsed minuteKeyOf_def orZero_def)
  have e0: "gp_gasUsed (getGasUsageHistory (exChain []) gasFetch secondsLabel publicUrl 2 ! 0) = 1"
    using T [THEN conjunct2, rule_format, of 0] by (simp add: ts blocks sums)
  have e1: "gp_gasUsed (getGasUsageHistory (exChain []) gasFetch secondsLabel publicUrl 2 ! 1) = 42000
     \<and> gp_time (getGasUsageHistory (exChain []) gasFetch secondsLabel publicUrl 2 ! 1) = ''1004''"
    using T [THEN conjunct2, rule_format, of 1]
    by (simp add: ts blocks sums secondsLabel_def numToString_def digitChar_def natToString.simps)
  have down: "getGasUsageHistory downFetch gasFetch secondsLabel publicUrl 2 = []"
    using gas_history_by_minute [of downFetch undefined undefined gasFetch publicUrl 2 undefined
        secondsLabel, THEN conjunct2]
    by (simp add: downFetch_def)
  show ?thesis
    using h1 h2 h4l len e0 e1 down by blast
qed

subsection \<open>Event ids\<close>




























end
